theory Spec2Isabelle
  imports Main "HOL-Library.Word"
begin

unbundle bit_operations_syntax

section \<open>VMCS fields\<close>

text \<open>
  The file \<^verbatim>\<open>vcpu_vmcs.cpp\<close> names the fields of the virtual-machine control structure
  through the enumeration \<^verbatim>\<open>vmx::vmcs::field\<close>. Its enumerators are opaque keys of the
  primitive read and write operations. The enumeration is grouped here by the prefix of
  the enumerator (\<^verbatim>\<open>ctrl_\<close>, \<^verbatim>\<open>vmexit_\<close>, \<^verbatim>\<open>guest_\<close>, \<^verbatim>\<open>host_\<close>); the abbreviations below give
  every enumerator the name it has in the source.
\<close>

datatype ctrl_field =
    c_pin_based_vm_execution_controls
  | c_processor_based_vm_execution_controls
  | c_secondary_processor_based_vm_execution_controls
  | c_vmentry_controls
  | c_vmexit_controls
  | c_exception_bitmap
  | c_msr_bitmap_address
  | c_io_bitmap_a_address
  | c_io_bitmap_b_address
  | c_pagefault_error_code_mask
  | c_pagefault_error_code_match
  | c_vmentry_instruction_length
  | c_vmentry_interruption_info
  | c_vmentry_exception_error_code
  | c_cr0_read_shadow
  | c_cr4_read_shadow

datatype vmexit_field =
    x_instruction_error
  | x_instruction_info
  | x_instruction_length
  | x_interruption_info
  | x_interruption_error_code
  | x_reason
  | x_qualification
  | x_guest_physical_address
  | x_guest_linear_address

datatype segment = ES | CS | SS | DS | FS | GS | LDTR | TR

datatype guest_field =
    g_cr0 | g_cr3 | g_cr4 | g_dr7 | g_debugctl
  | g_rsp | g_rip | g_rflags
  | g_gdtr_base | g_gdtr_limit
  | g_idtr_base | g_idtr_limit
  | g_base segment
  | g_limit segment
  | g_access_rights segment
  | g_selector segment

datatype host_field =
    h_cr0 | h_cr3 | h_cr4
  | h_rsp | h_rip
  | h_gdtr_base | h_idtr_base
  | h_cs_selector | h_ds_selector | h_es_selector
  | h_fs_selector | h_fs_base
  | h_gs_selector | h_gs_base
  | h_ss_selector
  | h_tr_selector | h_tr_base

datatype field =
    ctrl ctrl_field
  | vmexit vmexit_field
  | guest guest_field
  | host host_field

abbreviation ctrl_pin_based_vm_execution_controls :: field where
  "ctrl_pin_based_vm_execution_controls \<equiv> ctrl c_pin_based_vm_execution_controls"
abbreviation ctrl_processor_based_vm_execution_controls :: field where
  "ctrl_processor_based_vm_execution_controls \<equiv> ctrl c_processor_based_vm_execution_controls"
abbreviation ctrl_secondary_processor_based_vm_execution_controls :: field where
  "ctrl_secondary_processor_based_vm_execution_controls \<equiv>
     ctrl c_secondary_processor_based_vm_execution_controls"
abbreviation ctrl_vmentry_controls :: field where
  "ctrl_vmentry_controls \<equiv> ctrl c_vmentry_controls"
abbreviation ctrl_vmexit_controls :: field where
  "ctrl_vmexit_controls \<equiv> ctrl c_vmexit_controls"
abbreviation ctrl_exception_bitmap :: field where
  "ctrl_exception_bitmap \<equiv> ctrl c_exception_bitmap"
abbreviation ctrl_msr_bitmap_address :: field where
  "ctrl_msr_bitmap_address \<equiv> ctrl c_msr_bitmap_address"
abbreviation ctrl_io_bitmap_a_address :: field where
  "ctrl_io_bitmap_a_address \<equiv> ctrl c_io_bitmap_a_address"
abbreviation ctrl_io_bitmap_b_address :: field where
  "ctrl_io_bitmap_b_address \<equiv> ctrl c_io_bitmap_b_address"
abbreviation ctrl_pagefault_error_code_mask :: field where
  "ctrl_pagefault_error_code_mask \<equiv> ctrl c_pagefault_error_code_mask"
abbreviation ctrl_pagefault_error_code_match :: field where
  "ctrl_pagefault_error_code_match \<equiv> ctrl c_pagefault_error_code_match"
abbreviation ctrl_vmentry_instruction_length :: field where
  "ctrl_vmentry_instruction_length \<equiv> ctrl c_vmentry_instruction_length"
abbreviation ctrl_vmentry_interruption_info :: field where
  "ctrl_vmentry_interruption_info \<equiv> ctrl c_vmentry_interruption_info"
abbreviation ctrl_vmentry_exception_error_code :: field where
  "ctrl_vmentry_exception_error_code \<equiv> ctrl c_vmentry_exception_error_code"
abbreviation ctrl_cr0_read_shadow :: field where
  "ctrl_cr0_read_shadow \<equiv> ctrl c_cr0_read_shadow"
abbreviation ctrl_cr4_read_shadow :: field where
  "ctrl_cr4_read_shadow \<equiv> ctrl c_cr4_read_shadow"

abbreviation vmexit_instruction_error :: field where
  "vmexit_instruction_error \<equiv> vmexit x_instruction_error"
abbreviation vmexit_instruction_info :: field where
  "vmexit_instruction_info \<equiv> vmexit x_instruction_info"
abbreviation vmexit_instruction_length :: field where
  "vmexit_instruction_length \<equiv> vmexit x_instruction_length"
abbreviation vmexit_interruption_info :: field where
  "vmexit_interruption_info \<equiv> vmexit x_interruption_info"
abbreviation vmexit_interruption_error_code :: field where
  "vmexit_interruption_error_code \<equiv> vmexit x_interruption_error_code"
abbreviation vmexit_reason :: field where
  "vmexit_reason \<equiv> vmexit x_reason"
abbreviation vmexit_qualification :: field where
  "vmexit_qualification \<equiv> vmexit x_qualification"
abbreviation vmexit_guest_physical_address :: field where
  "vmexit_guest_physical_address \<equiv> vmexit x_guest_physical_address"
abbreviation vmexit_guest_linear_address :: field where
  "vmexit_guest_linear_address \<equiv> vmexit x_guest_linear_address"

abbreviation guest_cr0 :: field where "guest_cr0 \<equiv> guest g_cr0"
abbreviation guest_cr3 :: field where "guest_cr3 \<equiv> guest g_cr3"
abbreviation guest_cr4 :: field where "guest_cr4 \<equiv> guest g_cr4"
abbreviation guest_dr7 :: field where "guest_dr7 \<equiv> guest g_dr7"
abbreviation guest_debugctl :: field where "guest_debugctl \<equiv> guest g_debugctl"
abbreviation guest_rsp :: field where "guest_rsp \<equiv> guest g_rsp"
abbreviation guest_rip :: field where "guest_rip \<equiv> guest g_rip"
abbreviation guest_rflags :: field where "guest_rflags \<equiv> guest g_rflags"
abbreviation guest_gdtr_base :: field where "guest_gdtr_base \<equiv> guest g_gdtr_base"
abbreviation guest_gdtr_limit :: field where "guest_gdtr_limit \<equiv> guest g_gdtr_limit"
abbreviation guest_idtr_base :: field where "guest_idtr_base \<equiv> guest g_idtr_base"
abbreviation guest_idtr_limit :: field where "guest_idtr_limit \<equiv> guest g_idtr_limit"

abbreviation guest_cs_base :: field where "guest_cs_base \<equiv> guest (g_base CS)"
abbreviation guest_cs_limit :: field where "guest_cs_limit \<equiv> guest (g_limit CS)"
abbreviation guest_cs_access_rights :: field where
  "guest_cs_access_rights \<equiv> guest (g_access_rights CS)"
abbreviation guest_cs_selector :: field where "guest_cs_selector \<equiv> guest (g_selector CS)"
abbreviation guest_ds_base :: field where "guest_ds_base \<equiv> guest (g_base DS)"
abbreviation guest_ds_limit :: field where "guest_ds_limit \<equiv> guest (g_limit DS)"
abbreviation guest_ds_access_rights :: field where
  "guest_ds_access_rights \<equiv> guest (g_access_rights DS)"
abbreviation guest_ds_selector :: field where "guest_ds_selector \<equiv> guest (g_selector DS)"
abbreviation guest_es_base :: field where "guest_es_base \<equiv> guest (g_base ES)"
abbreviation guest_es_limit :: field where "guest_es_limit \<equiv> guest (g_limit ES)"
abbreviation guest_es_access_rights :: field where
  "guest_es_access_rights \<equiv> guest (g_access_rights ES)"
abbreviation guest_es_selector :: field where "guest_es_selector \<equiv> guest (g_selector ES)"
abbreviation guest_fs_base :: field where "guest_fs_base \<equiv> guest (g_base FS)"
abbreviation guest_fs_limit :: field where "guest_fs_limit \<equiv> guest (g_limit FS)"
abbreviation guest_fs_access_rights :: field where
  "guest_fs_access_rights \<equiv> guest (g_access_rights FS)"
abbreviation guest_fs_selector :: field where "guest_fs_selector \<equiv> guest (g_selector FS)"
abbreviation guest_gs_base :: field where "guest_gs_base \<equiv> guest (g_base GS)"
abbreviation guest_gs_limit :: field where "guest_gs_limit \<equiv> guest (g_limit GS)"
abbreviation guest_gs_access_rights :: field where
  "guest_gs_access_rights \<equiv> guest (g_access_rights GS)"
abbreviation guest_gs_selector :: field where "guest_gs_selector \<equiv> guest (g_selector GS)"
abbreviation guest_ss_base :: field where "guest_ss_base \<equiv> guest (g_base SS)"
abbreviation guest_ss_limit :: field where "guest_ss_limit \<equiv> guest (g_limit SS)"
abbreviation guest_ss_access_rights :: field where
  "guest_ss_access_rights \<equiv> guest (g_access_rights SS)"
abbreviation guest_ss_selector :: field where "guest_ss_selector \<equiv> guest (g_selector SS)"
abbreviation guest_tr_base :: field where "guest_tr_base \<equiv> guest (g_base TR)"
abbreviation guest_tr_limit :: field where "guest_tr_limit \<equiv> guest (g_limit TR)"
abbreviation guest_tr_access_rights :: field where
  "guest_tr_access_rights \<equiv> guest (g_access_rights TR)"
abbreviation guest_tr_selector :: field where "guest_tr_selector \<equiv> guest (g_selector TR)"
abbreviation guest_ldtr_base :: field where "guest_ldtr_base \<equiv> guest (g_base LDTR)"
abbreviation guest_ldtr_limit :: field where "guest_ldtr_limit \<equiv> guest (g_limit LDTR)"
abbreviation guest_ldtr_access_rights :: field where
  "guest_ldtr_access_rights \<equiv> guest (g_access_rights LDTR)"
abbreviation guest_ldtr_selector :: field where
  "guest_ldtr_selector \<equiv> guest (g_selector LDTR)"

abbreviation host_cr0 :: field where "host_cr0 \<equiv> host h_cr0"
abbreviation host_cr3 :: field where "host_cr3 \<equiv> host h_cr3"
abbreviation host_cr4 :: field where "host_cr4 \<equiv> host h_cr4"
abbreviation host_rsp :: field where "host_rsp \<equiv> host h_rsp"
abbreviation host_rip :: field where "host_rip \<equiv> host h_rip"
abbreviation host_gdtr_base :: field where "host_gdtr_base \<equiv> host h_gdtr_base"
abbreviation host_idtr_base :: field where "host_idtr_base \<equiv> host h_idtr_base"
abbreviation host_cs_selector :: field where "host_cs_selector \<equiv> host h_cs_selector"
abbreviation host_ds_selector :: field where "host_ds_selector \<equiv> host h_ds_selector"
abbreviation host_es_selector :: field where "host_es_selector \<equiv> host h_es_selector"
abbreviation host_fs_selector :: field where "host_fs_selector \<equiv> host h_fs_selector"
abbreviation host_fs_base :: field where "host_fs_base \<equiv> host h_fs_base"
abbreviation host_gs_selector :: field where "host_gs_selector \<equiv> host h_gs_selector"
abbreviation host_gs_base :: field where "host_gs_base \<equiv> host h_gs_base"
abbreviation host_ss_selector :: field where "host_ss_selector \<equiv> host h_ss_selector"
abbreviation host_tr_selector :: field where "host_tr_selector \<equiv> host h_tr_selector"
abbreviation host_tr_base :: field where "host_tr_base \<equiv> host h_tr_base"

section \<open>The primitive layer and the virtual-CPU instance\<close>

text \<open>
  Every hardware access of the source is a call of \<^verbatim>\<open>vmx::vmread\<close> or \<^verbatim>\<open>vmx::vmwrite\<close>.
  Both are recorded as events, so that "this field is read" and "this field is not
  written" are statements about the list of events of a run.
\<close>

datatype event = VmRead field | VmWrite field "64 word"

text \<open>
  Modelled from the spec: \<^verbatim>\<open>vmx::adjust\<close> and the capability registers it reads are
  declared outside \<^verbatim>\<open>vcpu_vmcs.cpp\<close>. The spec describes a pair of hardware-reported
  bit masks for each adjustable control group and an operation that forces the
  mandatory-1 and the mandatory-0 bits into a requested value. A bit that is set in
  \<open>allowed_0_settings\<close> must be 1 (mandatory-1); a bit that is clear in
  \<open>allowed_1_settings\<close> must be 0 (mandatory-0).
\<close>

record vmx_capability =
  allowed_0_settings :: "32 word"
  allowed_1_settings :: "32 word"

definition adjust :: "vmx_capability \<Rightarrow> 32 word \<Rightarrow> 32 word" where
  "adjust cap desired = (desired AND allowed_1_settings cap) OR allowed_0_settings cap"

text \<open>
  A capability is consistent when no bit is both mandatory-1 and mandatory-0.
\<close>

definition consistent :: "vmx_capability \<Rightarrow> bool" where
  "consistent cap \<longleftrightarrow> allowed_0_settings cap AND NOT (allowed_1_settings cap) = 0"

text \<open>
  \<^verbatim>\<open>vmx::io_bitmap\<close> has the two halves \<^verbatim>\<open>a\<close> and \<^verbatim>\<open>b\<close>; \<^verbatim>\<open>vmx::msr_bitmap\<close> is a byte array.
\<close>

type_synonym msr_bitmap_t = "8 word list"

record io_bitmap_t =
  io_a :: "8 word list"
  io_b :: "8 word list"

text \<open>
  The state of one virtual CPU on its logical core: the active control structure
  \<open>vmcs\<close> (every field holds the zero-extended value last written), the events so
  far, the members \<^verbatim>\<open>msr_bitmap_\<close>, \<^verbatim>\<open>io_bitmap_\<close> and \<^verbatim>\<open>suppress_rip_adjust_\<close> of the
  instance (a name cannot end with an underscore here, so they are \<open>own_msr_bitmap\<close>,
  \<open>own_io_bitmap\<close> and \<open>own_suppress_rip_adjust\<close>), the physical addresses that \<^verbatim>\<open>pa_t::from_va\<close> gives for \<^verbatim>\<open>&msr_bitmap_\<close>,
  \<^verbatim>\<open>&io_bitmap_.a\<close> and \<^verbatim>\<open>&io_bitmap_.b\<close>, and the capabilities of the four adjustable
  control groups.
\<close>

record vcpu =
  vmcs :: "field \<Rightarrow> 64 word"
  trace :: "event list"
  own_msr_bitmap :: msr_bitmap_t
  own_io_bitmap :: io_bitmap_t
  own_suppress_rip_adjust :: bool
  msr_bitmap_pa :: "64 word"
  io_bitmap_a_pa :: "64 word"
  io_bitmap_b_pa :: "64 word"
  pinbased_cap :: vmx_capability
  procbased_cap :: vmx_capability
  entry_cap :: vmx_capability
  exit_cap :: vmx_capability

text \<open>
  \<^verbatim>\<open>vmx::vmread\<close> and \<^verbatim>\<open>vmx::vmwrite\<close> are templates over the type of the value; the
  instance for a \<open>w\<close>-bit type truncates the field to \<open>w\<close> bits on a read and
  zero-extends the value on a write.
\<close>

definition vmread :: "field \<Rightarrow> vcpu \<Rightarrow> 'a::len word \<times> vcpu" where
  "vmread f s = (ucast (vmcs s f), s\<lparr>trace := trace s @ [VmRead f]\<rparr>)"

definition vmwrite :: "field \<Rightarrow> 'a::len word \<Rightarrow> vcpu \<Rightarrow> vcpu" where
  "vmwrite f v s =
     s\<lparr>vmcs := (vmcs s)(f := ucast v), trace := trace s @ [VmWrite f (ucast v)]\<rparr>"

text \<open>The values written to field \<open>f\<close> in a list of events, in order.\<close>

fun written :: "field \<Rightarrow> event list \<Rightarrow> 64 word list" where
  "written f [] = []"
| "written f (VmRead g # es) = written f es"
| "written f (VmWrite g v # es) = (if g = f then v # written f es else written f es)"

text \<open>The fields read in a list of events, in order.\<close>

fun reads :: "event list \<Rightarrow> field list" where
  "reads [] = []"
| "reads (VmRead g # es) = g # reads es"
| "reads (VmWrite g v # es) = reads es"

text \<open>The events of a run from state \<open>s\<close> to state \<open>s'\<close>.\<close>

definition events :: "vcpu \<Rightarrow> vcpu \<Rightarrow> event list" where
  "events s s' = drop (length (trace s)) (trace s')"

section \<open>Control state\<close>

text \<open>
  A getter and its setter share one name in the source; here the getter carries the
  suffix \<open>_get\<close> and the setter the suffix \<open>_set\<close>. A getter returns the value read
  and the state after the read.
\<close>

definition pin_based_controls_get :: "vcpu \<Rightarrow> 32 word \<times> vcpu" where
  "pin_based_controls_get s = vmread ctrl_pin_based_vm_execution_controls s"

definition pin_based_controls_set :: "32 word \<Rightarrow> vcpu \<Rightarrow> vcpu" where
  "pin_based_controls_set controls s =
     vmwrite ctrl_pin_based_vm_execution_controls (adjust (pinbased_cap s) controls) s"

definition processor_based_controls_get :: "vcpu \<Rightarrow> 32 word \<times> vcpu" where
  "processor_based_controls_get s = vmread ctrl_processor_based_vm_execution_controls s"

definition processor_based_controls_set :: "32 word \<Rightarrow> vcpu \<Rightarrow> vcpu" where
  "processor_based_controls_set controls s =
     vmwrite ctrl_processor_based_vm_execution_controls (adjust (procbased_cap s) controls) s"

definition processor_based_controls2_get :: "vcpu \<Rightarrow> 32 word \<times> vcpu" where
  "processor_based_controls2_get s =
     vmread ctrl_secondary_processor_based_vm_execution_controls s"

definition processor_based_controls2_set :: "32 word \<Rightarrow> vcpu \<Rightarrow> vcpu" where
  "processor_based_controls2_set controls s =
     vmwrite ctrl_secondary_processor_based_vm_execution_controls controls s"

definition vm_entry_controls_get :: "vcpu \<Rightarrow> 32 word \<times> vcpu" where
  "vm_entry_controls_get s = vmread ctrl_vmentry_controls s"

definition vm_entry_controls_set :: "32 word \<Rightarrow> vcpu \<Rightarrow> vcpu" where
  "vm_entry_controls_set controls s =
     vmwrite ctrl_vmentry_controls (adjust (entry_cap s) controls) s"

definition vm_exit_controls_get :: "vcpu \<Rightarrow> 32 word \<times> vcpu" where
  "vm_exit_controls_get s = vmread ctrl_vmexit_controls s"

definition vm_exit_controls_set :: "32 word \<Rightarrow> vcpu \<Rightarrow> vcpu" where
  "vm_exit_controls_set controls s =
     vmwrite ctrl_vmexit_controls (adjust (exit_cap s) controls) s"

definition exception_bitmap_get :: "vcpu \<Rightarrow> 32 word \<times> vcpu" where
  "exception_bitmap_get s = vmread ctrl_exception_bitmap s"

definition exception_bitmap_set :: "32 word \<Rightarrow> vcpu \<Rightarrow> vcpu" where
  "exception_bitmap_set exception_bitmap s = vmwrite ctrl_exception_bitmap exception_bitmap s"

definition msr_bitmap_get :: "vcpu \<Rightarrow> msr_bitmap_t" where
  "msr_bitmap_get s = own_msr_bitmap s"

definition msr_bitmap_set :: "msr_bitmap_t \<Rightarrow> vcpu \<Rightarrow> vcpu" where
  "msr_bitmap_set msr_bitmap s =
     (let s1 = s\<lparr>own_msr_bitmap := msr_bitmap\<rparr>
      in vmwrite ctrl_msr_bitmap_address (msr_bitmap_pa s1) s1)"

definition io_bitmap_get :: "vcpu \<Rightarrow> io_bitmap_t" where
  "io_bitmap_get s = own_io_bitmap s"

text \<open>
  Modelled from the spec: the bit-field \<^verbatim>\<open>use_io_bitmaps\<close> of the processor-based controls
  is declared outside \<^verbatim>\<open>vcpu_vmcs.cpp\<close>; it is bit 25 of the control word.
\<close>

definition use_io_bitmaps :: nat where
  "use_io_bitmaps = 25"

definition io_bitmap_set :: "io_bitmap_t \<Rightarrow> vcpu \<Rightarrow> vcpu" where
  "io_bitmap_set io_bitmap s =
     (let s1 = s\<lparr>own_io_bitmap := io_bitmap\<rparr>;
          (procbased_ctls, s2) = processor_based_controls_get s1;
          procbased_ctls = set_bit use_io_bitmaps procbased_ctls;
          s3 = processor_based_controls_set procbased_ctls s2;
          s4 = vmwrite ctrl_io_bitmap_a_address (io_bitmap_a_pa s3) s3
      in vmwrite ctrl_io_bitmap_b_address (io_bitmap_b_pa s4) s4)"

definition pagefault_error_code_mask_get :: "vcpu \<Rightarrow> 32 word \<times> vcpu" where
  "pagefault_error_code_mask_get s = vmread ctrl_pagefault_error_code_mask s"

definition pagefault_error_code_mask_set :: "32 word \<Rightarrow> vcpu \<Rightarrow> vcpu" where
  "pagefault_error_code_mask_set mask_value s =
     vmwrite ctrl_pagefault_error_code_mask mask_value s"

definition pagefault_error_code_match_get :: "vcpu \<Rightarrow> 32 word \<times> vcpu" where
  "pagefault_error_code_match_get s = vmread ctrl_pagefault_error_code_match s"

definition pagefault_error_code_match_set :: "32 word \<Rightarrow> vcpu \<Rightarrow> vcpu" where
  "pagefault_error_code_match_set match_value s =
     vmwrite ctrl_pagefault_error_code_match match_value s"

section \<open>Interrupt descriptors\<close>

text \<open>
  Modelled from the spec: the class \<^verbatim>\<open>interrupt_info\<close> and the bit-field
  \<^verbatim>\<open>vmx::interrupt_info\<close> are declared outside \<^verbatim>\<open>vcpu_vmcs.cpp\<close>. The interruption
  information is a 32-bit word with the vector in bits 7:0, the type in bits 10:8, the
  error-code-valid flag at bit 11, the NMI-unblocking flag at bit 12 and the valid flag
  at bit 31. The descriptor holds this word in \<^verbatim>\<open>info_\<close>, the error code in
  \<^verbatim>\<open>error_code_\<close> and the signed length \<^verbatim>\<open>rip_adjust_\<close>, where -1 stands for
  "unspecified" (here \<open>ii_info\<close>, \<open>ii_error_code\<close> and \<open>ii_rip_adjust\<close>).
\<close>

datatype interrupt_type =
    external
  | reserved
  | nmi
  | hardware_exception
  | software
  | privileged_exception
  | software_exception
  | other_event

record interrupt_info =
  ii_info :: "32 word"
  ii_error_code :: "32 word"
  ii_rip_adjust :: "32 word"

definition interrupt_type_of :: "32 word \<Rightarrow> interrupt_type" where
  "interrupt_type_of t =
     (if t = 0 then external
      else if t = 1 then reserved
      else if t = 2 then nmi
      else if t = 3 then hardware_exception
      else if t = 4 then software
      else if t = 5 then privileged_exception
      else if t = 6 then software_exception
      else other_event)"

definition vector :: "interrupt_info \<Rightarrow> 8 word" where
  "vector interrupt = ucast (ii_info interrupt)"

definition type :: "interrupt_info \<Rightarrow> interrupt_type" where
  "type interrupt = interrupt_type_of (drop_bit 8 (ii_info interrupt) AND 7)"

definition error_code :: "interrupt_info \<Rightarrow> 32 word" where
  "error_code interrupt = ii_error_code interrupt"

definition error_code_valid :: "interrupt_info \<Rightarrow> bool" where
  "error_code_valid interrupt = bit (ii_info interrupt) 11"

definition nmi_unblocking :: "interrupt_info \<Rightarrow> bool" where
  "nmi_unblocking interrupt = bit (ii_info interrupt) 12"

definition valid :: "interrupt_info \<Rightarrow> bool" where
  "valid interrupt = bit (ii_info interrupt) 31"

text \<open>
  The exception vectors named by \<^verbatim>\<open>inject\<close>, with the numbers its comment gives them:
  #DF (8), #TS (10), #NP (11), #SS (12), #GP (13), #PF (14), #AC (17).
\<close>

definition double_fault :: "8 word" where "double_fault = 8"
definition invalid_tss :: "8 word" where "invalid_tss = 10"
definition segment_not_present :: "8 word" where "segment_not_present = 11"
definition stack_segment_fault :: "8 word" where "stack_segment_fault = 12"
definition general_protection :: "8 word" where "general_protection = 13"
definition page_fault :: "8 word" where "page_fault = 14"
definition alignment_check :: "8 word" where "alignment_check = 17"

section \<open>Control entry state\<close>

text \<open>
  Modelled from the spec: \<^verbatim>\<open>hvpp_assert\<close> is declared in \<^verbatim>\<open>lib/assert.h\<close>, outside
  \<^verbatim>\<open>vcpu_vmcs.cpp\<close>. A violated assertion is a contract violation that aborts the run;
  the result keeps the state reached at the abort.
\<close>

datatype error = Assertion_failed

type_synonym outcome = "(error \<times> vcpu) + vcpu"

definition hvpp_assert :: "bool \<Rightarrow> vcpu \<Rightarrow> outcome" where
  "hvpp_assert expression s = (if expression then Inr s else Inl (Assertion_failed, s))"

definition final_state :: "outcome \<Rightarrow> vcpu" where
  "final_state r = (case r of Inl (e, s) \<Rightarrow> s | Inr s \<Rightarrow> s)"

definition entry_instruction_length_get :: "vcpu \<Rightarrow> 32 word \<times> vcpu" where
  "entry_instruction_length_get s = vmread ctrl_vmentry_instruction_length s"

definition entry_instruction_length_set :: "32 word \<Rightarrow> vcpu \<Rightarrow> vcpu" where
  "entry_instruction_length_set instruction_length s =
     vmwrite ctrl_vmentry_instruction_length instruction_length s"

definition entry_interruption_info_get :: "vcpu \<Rightarrow> 32 word \<times> vcpu" where
  "entry_interruption_info_get s = vmread ctrl_vmentry_interruption_info s"

definition entry_interruption_info_set :: "32 word \<Rightarrow> vcpu \<Rightarrow> vcpu" where
  "entry_interruption_info_set info s = vmwrite ctrl_vmentry_interruption_info info s"

definition entry_interruption_error_code_get :: "vcpu \<Rightarrow> 32 word \<times> vcpu" where
  "entry_interruption_error_code_get s = vmread ctrl_vmentry_exception_error_code s"

definition entry_interruption_error_code_set :: "32 word \<Rightarrow> vcpu \<Rightarrow> vcpu" where
  "entry_interruption_error_code_set error_code_value s =
     vmwrite ctrl_vmentry_exception_error_code error_code_value s"

definition suppress_rip_adjust :: "vcpu \<Rightarrow> vcpu" where
  "suppress_rip_adjust s = s\<lparr>own_suppress_rip_adjust := True\<rparr>"

section \<open>Exit state\<close>

definition exit_instruction_error :: "vcpu \<Rightarrow> 32 word \<times> vcpu" where
  "exit_instruction_error s = vmread vmexit_instruction_error s"

definition exit_instruction_info :: "vcpu \<Rightarrow> 32 word \<times> vcpu" where
  "exit_instruction_info s = vmread vmexit_instruction_info s"

definition exit_instruction_length :: "vcpu \<Rightarrow> 32 word \<times> vcpu" where
  "exit_instruction_length s = vmread vmexit_instruction_length s"

definition exit_interruption_info :: "vcpu \<Rightarrow> 32 word \<times> vcpu" where
  "exit_interruption_info s = vmread vmexit_interruption_info s"

definition exit_interruption_error_code :: "vcpu \<Rightarrow> 32 word \<times> vcpu" where
  "exit_interruption_error_code s = vmread vmexit_interruption_error_code s"

definition exit_reason :: "vcpu \<Rightarrow> 32 word \<times> vcpu" where
  "exit_reason s = vmread vmexit_reason s"

definition exit_qualification :: "vcpu \<Rightarrow> 64 word \<times> vcpu" where
  "exit_qualification s = vmread vmexit_qualification s"

definition exit_guest_physical_address :: "vcpu \<Rightarrow> 64 word \<times> vcpu" where
  "exit_guest_physical_address s = vmread vmexit_guest_physical_address s"

definition exit_guest_linear_address :: "vcpu \<Rightarrow> 64 word \<times> vcpu" where
  "exit_guest_linear_address s = vmread vmexit_guest_linear_address s"

text \<open>
  \<^verbatim>\<open>exit_interrupt_info\<close> fills a default-constructed descriptor. The constructor is
  declared outside \<^verbatim>\<open>vcpu_vmcs.cpp\<close>, so the default-constructed value is the first
  argument \<open>result\<close>.
\<close>

definition exit_interrupt_info :: "interrupt_info \<Rightarrow> vcpu \<Rightarrow> interrupt_info \<times> vcpu" where
  "exit_interrupt_info result s =
     (let (info, s1) = exit_interruption_info s;
          result = result\<lparr>ii_info := info\<rparr>
      in if valid result then
           (let (result, s2) =
                  (if error_code_valid result then
                     (let (ec, s2) = exit_interruption_error_code s1
                      in (result\<lparr>ii_error_code := ec\<rparr>, s2))
                   else (result, s1));
                (len, s3) = exit_instruction_length s2
            in (result\<lparr>ii_rip_adjust := len\<rparr>, s3))
         else (result, s1))"

section \<open>Event injection\<close>

text \<open>
  The first part of the body of \<^verbatim>\<open>inject\<close> for a valid descriptor: the error code of a
  hardware exception (the \<^verbatim>\<open>if\<close> with its \<^verbatim>\<open>switch\<close> on the vector).
\<close>

definition inject_error_code :: "interrupt_info \<Rightarrow> vcpu \<Rightarrow> outcome" where
  "inject_error_code interrupt s =
     (if type interrupt = hardware_exception then
        (if vector interrupt \<in> {invalid_tss, segment_not_present, stack_segment_fault,
                                general_protection, page_fault} then
           (case hvpp_assert (error_code_valid interrupt) s of
              Inl e \<Rightarrow> Inl e
            | Inr s1 \<Rightarrow> Inr (entry_interruption_error_code_set (error_code interrupt) s1))
         else if vector interrupt \<in> {double_fault, alignment_check} then
           (case hvpp_assert (error_code_valid interrupt \<and> error_code interrupt = 0) s of
              Inl e \<Rightarrow> Inl e
            | Inr s1 \<Rightarrow> Inr (entry_interruption_error_code_set (error_code interrupt) s1))
         else Inr s)
      else Inr s)"

text \<open>
  The second part: the \<^verbatim>\<open>switch\<close> on the type. \<^verbatim>\<open>rip_adjust_\<close> is an \<^verbatim>\<open>int\<close>, compared as a
  signed number; the exit instruction length is converted to \<^verbatim>\<open>int\<close> and the length
  back to \<^verbatim>\<open>uint32_t\<close> without a change of the 32 bits.
\<close>

definition inject_rip_adjust :: "interrupt_info \<Rightarrow> vcpu \<Rightarrow> vcpu" where
  "inject_rip_adjust interrupt s =
     (if type interrupt \<in> {software, privileged_exception, software_exception} then
        (let (rip_adjust, s1) =
               (if ii_rip_adjust interrupt = - 1 then exit_instruction_length s
                else (ii_rip_adjust interrupt, s))
         in if 0 <s rip_adjust then entry_instruction_length_set rip_adjust s1 else s1)
      else s)"

definition inject :: "interrupt_info \<Rightarrow> vcpu \<Rightarrow> outcome" where
  "inject interrupt s =
     (let s1 = entry_interruption_info_set (ii_info interrupt) s
      in if valid interrupt then
           (case inject_error_code interrupt s1 of
              Inl e \<Rightarrow> Inl e
            | Inr s2 \<Rightarrow> Inr (inject_rip_adjust interrupt s2))
         else Inr s1)"

section \<open>Guest state\<close>

definition guest_cr0_shadow_get :: "vcpu \<Rightarrow> 64 word \<times> vcpu" where
  "guest_cr0_shadow_get s = vmread ctrl_cr0_read_shadow s"

definition guest_cr0_shadow_set :: "64 word \<Rightarrow> vcpu \<Rightarrow> vcpu" where
  "guest_cr0_shadow_set cr0 s = vmwrite ctrl_cr0_read_shadow cr0 s"

definition guest_cr0_get :: "vcpu \<Rightarrow> 64 word \<times> vcpu" where
  "guest_cr0_get s = vmread guest_cr0 s"

definition guest_cr0_set :: "64 word \<Rightarrow> vcpu \<Rightarrow> vcpu" where
  "guest_cr0_set cr0 s = vmwrite guest_cr0 cr0 s"

definition guest_cr3_get :: "vcpu \<Rightarrow> 64 word \<times> vcpu" where
  "guest_cr3_get s = vmread guest_cr3 s"

definition guest_cr3_set :: "64 word \<Rightarrow> vcpu \<Rightarrow> vcpu" where
  "guest_cr3_set cr3 s = vmwrite guest_cr3 cr3 s"

definition guest_cr4_shadow_get :: "vcpu \<Rightarrow> 64 word \<times> vcpu" where
  "guest_cr4_shadow_get s = vmread ctrl_cr4_read_shadow s"

definition guest_cr4_shadow_set :: "64 word \<Rightarrow> vcpu \<Rightarrow> vcpu" where
  "guest_cr4_shadow_set cr4 s = vmwrite ctrl_cr4_read_shadow cr4 s"

definition guest_cr4_get :: "vcpu \<Rightarrow> 64 word \<times> vcpu" where
  "guest_cr4_get s = vmread guest_cr4 s"

definition guest_cr4_set :: "64 word \<Rightarrow> vcpu \<Rightarrow> vcpu" where
  "guest_cr4_set cr4 s = vmwrite guest_cr4 cr4 s"

definition guest_dr7_get :: "vcpu \<Rightarrow> 64 word \<times> vcpu" where
  "guest_dr7_get s = vmread guest_dr7 s"

definition guest_dr7_set :: "64 word \<Rightarrow> vcpu \<Rightarrow> vcpu" where
  "guest_dr7_set dr7 s = vmwrite guest_dr7 dr7 s"

definition guest_debugctl_get :: "vcpu \<Rightarrow> 64 word \<times> vcpu" where
  "guest_debugctl_get s = vmread guest_debugctl s"

definition guest_debugctl_set :: "64 word \<Rightarrow> vcpu \<Rightarrow> vcpu" where
  "guest_debugctl_set debugctl s = vmwrite guest_debugctl debugctl s"

definition guest_rsp_get :: "vcpu \<Rightarrow> 64 word \<times> vcpu" where
  "guest_rsp_get s = vmread guest_rsp s"

definition guest_rsp_set :: "64 word \<Rightarrow> vcpu \<Rightarrow> vcpu" where
  "guest_rsp_set rsp s = vmwrite guest_rsp rsp s"

definition guest_rip_get :: "vcpu \<Rightarrow> 64 word \<times> vcpu" where
  "guest_rip_get s = vmread guest_rip s"

definition guest_rip_set :: "64 word \<Rightarrow> vcpu \<Rightarrow> vcpu" where
  "guest_rip_set rip s = vmwrite guest_rip rip s"

definition guest_rflags_get :: "vcpu \<Rightarrow> 64 word \<times> vcpu" where
  "guest_rflags_get s = vmread guest_rflags s"

definition guest_rflags_set :: "64 word \<Rightarrow> vcpu \<Rightarrow> vcpu" where
  "guest_rflags_set rflags s = vmwrite guest_rflags rflags s"

text \<open>
  \<^verbatim>\<open>gdtr_t\<close> and \<^verbatim>\<open>idtr_t\<close> have the members \<^verbatim>\<open>base_address\<close> and \<^verbatim>\<open>limit\<close>; a segment
  \<^verbatim>\<open>seg_t\<close> has \<^verbatim>\<open>base_address\<close>, \<^verbatim>\<open>limit\<close>, \<^verbatim>\<open>access\<close> and \<^verbatim>\<open>selector\<close>. The members of the
  table registers carry the prefix \<open>table_\<close> here, since two records cannot share a
  field name.
\<close>

record table_register_t =
  table_base_address :: "64 word"
  table_limit :: "16 word"

type_synonym gdtr_t = table_register_t
type_synonym idtr_t = table_register_t

record seg_t =
  base_address :: "64 word"
  limit :: "32 word"
  access :: "32 word"
  selector :: "16 word"

definition guest_gdtr_get :: "vcpu \<Rightarrow> gdtr_t \<times> vcpu" where
  "guest_gdtr_get s =
     (let (base, s1) = vmread guest_gdtr_base s;
          (lim, s2) = vmread guest_gdtr_limit s1
      in (\<lparr>table_base_address = base, table_limit = lim\<rparr>, s2))"

definition guest_gdtr_set :: "gdtr_t \<Rightarrow> vcpu \<Rightarrow> vcpu" where
  "guest_gdtr_set gdtr s =
     (let s1 = vmwrite guest_gdtr_base (table_base_address gdtr) s
      in vmwrite guest_gdtr_limit (table_limit gdtr) s1)"

definition guest_idtr_get :: "vcpu \<Rightarrow> idtr_t \<times> vcpu" where
  "guest_idtr_get s =
     (let (base, s1) = vmread guest_idtr_base s;
          (lim, s2) = vmread guest_idtr_limit s1
      in (\<lparr>table_base_address = base, table_limit = lim\<rparr>, s2))"

definition guest_idtr_set :: "idtr_t \<Rightarrow> vcpu \<Rightarrow> vcpu" where
  "guest_idtr_set idtr s =
     (let s1 = vmwrite guest_idtr_base (table_base_address idtr) s
      in vmwrite guest_idtr_limit (table_limit idtr) s1)"

text \<open>
  The eight guest segment getters of the source are the same function up to the segment
  register in the names of the four fields, and so are the eight setters. Both are
  written once, for a segment register \<open>r\<close>; the accessors of the source are its
  instances.
\<close>

definition guest_seg_get :: "segment \<Rightarrow> vcpu \<Rightarrow> seg_t \<times> vcpu" where
  "guest_seg_get r s =
     (let (base, s1) = vmread (guest (g_base r)) s;
          (lim, s2) = vmread (guest (g_limit r)) s1;
          (acc, s3) = vmread (guest (g_access_rights r)) s2;
          (sel, s4) = vmread (guest (g_selector r)) s3
      in (\<lparr>base_address = base, limit = lim, access = acc, selector = sel\<rparr>, s4))"

definition guest_seg_set :: "segment \<Rightarrow> seg_t \<Rightarrow> vcpu \<Rightarrow> vcpu" where
  "guest_seg_set r seg s =
     (let s1 = vmwrite (guest (g_base r)) (base_address seg) s;
          s2 = vmwrite (guest (g_limit r)) (limit seg) s1;
          s3 = vmwrite (guest (g_access_rights r)) (access seg) s2
      in vmwrite (guest (g_selector r)) (selector seg) s3)"

definition guest_cs_get :: "vcpu \<Rightarrow> seg_t \<times> vcpu" where "guest_cs_get = guest_seg_get CS"
definition guest_cs_set :: "seg_t \<Rightarrow> vcpu \<Rightarrow> vcpu" where "guest_cs_set = guest_seg_set CS"
definition guest_ds_get :: "vcpu \<Rightarrow> seg_t \<times> vcpu" where "guest_ds_get = guest_seg_get DS"
definition guest_ds_set :: "seg_t \<Rightarrow> vcpu \<Rightarrow> vcpu" where "guest_ds_set = guest_seg_set DS"
definition guest_es_get :: "vcpu \<Rightarrow> seg_t \<times> vcpu" where "guest_es_get = guest_seg_get ES"
definition guest_es_set :: "seg_t \<Rightarrow> vcpu \<Rightarrow> vcpu" where "guest_es_set = guest_seg_set ES"
definition guest_fs_get :: "vcpu \<Rightarrow> seg_t \<times> vcpu" where "guest_fs_get = guest_seg_get FS"
definition guest_fs_set :: "seg_t \<Rightarrow> vcpu \<Rightarrow> vcpu" where "guest_fs_set = guest_seg_set FS"
definition guest_gs_get :: "vcpu \<Rightarrow> seg_t \<times> vcpu" where "guest_gs_get = guest_seg_get GS"
definition guest_gs_set :: "seg_t \<Rightarrow> vcpu \<Rightarrow> vcpu" where "guest_gs_set = guest_seg_set GS"
definition guest_ss_get :: "vcpu \<Rightarrow> seg_t \<times> vcpu" where "guest_ss_get = guest_seg_get SS"
definition guest_ss_set :: "seg_t \<Rightarrow> vcpu \<Rightarrow> vcpu" where "guest_ss_set = guest_seg_set SS"
definition guest_tr_get :: "vcpu \<Rightarrow> seg_t \<times> vcpu" where "guest_tr_get = guest_seg_get TR"
definition guest_tr_set :: "seg_t \<Rightarrow> vcpu \<Rightarrow> vcpu" where "guest_tr_set = guest_seg_set TR"
definition guest_ldtr_get :: "vcpu \<Rightarrow> seg_t \<times> vcpu" where
  "guest_ldtr_get = guest_seg_get LDTR"
definition guest_ldtr_set :: "seg_t \<Rightarrow> vcpu \<Rightarrow> vcpu" where
  "guest_ldtr_set = guest_seg_set LDTR"

section \<open>Host state\<close>

definition host_cr0_get :: "vcpu \<Rightarrow> 64 word \<times> vcpu" where
  "host_cr0_get s = vmread host_cr0 s"

definition host_cr0_set :: "64 word \<Rightarrow> vcpu \<Rightarrow> vcpu" where
  "host_cr0_set cr0 s = vmwrite host_cr0 cr0 s"

definition host_cr3_get :: "vcpu \<Rightarrow> 64 word \<times> vcpu" where
  "host_cr3_get s = vmread host_cr3 s"

definition host_cr3_set :: "64 word \<Rightarrow> vcpu \<Rightarrow> vcpu" where
  "host_cr3_set cr3 s = vmwrite host_cr3 cr3 s"

definition host_cr4_get :: "vcpu \<Rightarrow> 64 word \<times> vcpu" where
  "host_cr4_get s = vmread host_cr4 s"

definition host_cr4_set :: "64 word \<Rightarrow> vcpu \<Rightarrow> vcpu" where
  "host_cr4_set cr4 s = vmwrite host_cr4 cr4 s"

definition host_rsp_get :: "vcpu \<Rightarrow> 64 word \<times> vcpu" where
  "host_rsp_get s = vmread host_rsp s"

definition host_rsp_set :: "64 word \<Rightarrow> vcpu \<Rightarrow> vcpu" where
  "host_rsp_set rsp s = vmwrite host_rsp rsp s"

definition host_rip_get :: "vcpu \<Rightarrow> 64 word \<times> vcpu" where
  "host_rip_get s = vmread host_rip s"

definition host_rip_set :: "64 word \<Rightarrow> vcpu \<Rightarrow> vcpu" where
  "host_rip_set rip s = vmwrite host_rip rip s"

text \<open>
  A host getter reads some members of a default-constructed local and returns it. The
  constructors are declared outside \<^verbatim>\<open>vcpu_vmcs.cpp\<close>, so the default-constructed value
  is the first argument of the getter.
\<close>

definition host_gdtr_get :: "gdtr_t \<Rightarrow> vcpu \<Rightarrow> gdtr_t \<times> vcpu" where
  "host_gdtr_get gdtr s =
     (let (base, s1) = vmread host_gdtr_base s
      in (gdtr\<lparr>table_base_address := base\<rparr>, s1))"

definition host_gdtr_set :: "gdtr_t \<Rightarrow> vcpu \<Rightarrow> vcpu" where
  "host_gdtr_set gdtr s = vmwrite host_gdtr_base (table_base_address gdtr) s"

definition host_idtr_get :: "idtr_t \<Rightarrow> vcpu \<Rightarrow> idtr_t \<times> vcpu" where
  "host_idtr_get idtr s =
     (let (base, s1) = vmread host_idtr_base s
      in (idtr\<lparr>table_base_address := base\<rparr>, s1))"

definition host_idtr_set :: "idtr_t \<Rightarrow> vcpu \<Rightarrow> vcpu" where
  "host_idtr_set idtr s = vmwrite host_idtr_base (table_base_address idtr) s"

text \<open>
  Modelled from the spec: the bit-fields of a segment selector are declared outside
  \<^verbatim>\<open>vcpu_vmcs.cpp\<close>. A selector is a 16-bit word with the requested privilege level in
  bits 1:0, the table indicator (the LDT bit) at bit 2 and the index in bits 15:3.
\<close>

definition request_privilege_level :: "16 word \<Rightarrow> 16 word" where
  "request_privilege_level sel = sel AND 3"

definition table :: "16 word \<Rightarrow> bool" where
  "table sel = bit sel 2"

definition index :: "16 word \<Rightarrow> 16 word" where
  "index sel = drop_bit 3 sel"

text \<open>
  The product \<^verbatim>\<open>selector.index * 8\<close> is computed in \<^verbatim>\<open>int\<close>: the index is promoted to 32
  bits before the multiplication.
\<close>

definition host_cs_get :: "seg_t \<Rightarrow> vcpu \<Rightarrow> seg_t \<times> vcpu" where
  "host_cs_get cs s =
     (let (sel, s1) = vmread host_cs_selector s
      in (cs\<lparr>selector := sel\<rparr>, s1))"

definition host_cs_set :: "seg_t \<Rightarrow> vcpu \<Rightarrow> vcpu" where
  "host_cs_set cs s =
     vmwrite host_cs_selector ((ucast (index (selector cs)) :: 32 word) * 8) s"

definition host_ds_get :: "seg_t \<Rightarrow> vcpu \<Rightarrow> seg_t \<times> vcpu" where
  "host_ds_get ds s =
     (let (sel, s1) = vmread host_ds_selector s
      in (ds\<lparr>selector := sel\<rparr>, s1))"

definition host_ds_set :: "seg_t \<Rightarrow> vcpu \<Rightarrow> vcpu" where
  "host_ds_set ds s =
     vmwrite host_ds_selector ((ucast (index (selector ds)) :: 32 word) * 8) s"

definition host_es_get :: "seg_t \<Rightarrow> vcpu \<Rightarrow> seg_t \<times> vcpu" where
  "host_es_get es s =
     (let (sel, s1) = vmread host_es_selector s
      in (es\<lparr>selector := sel\<rparr>, s1))"

definition host_es_set :: "seg_t \<Rightarrow> vcpu \<Rightarrow> vcpu" where
  "host_es_set es s =
     vmwrite host_es_selector ((ucast (index (selector es)) :: 32 word) * 8) s"

definition host_fs_get :: "seg_t \<Rightarrow> vcpu \<Rightarrow> seg_t \<times> vcpu" where
  "host_fs_get fs s =
     (let (sel, s1) = vmread host_fs_selector s;
          (base, s2) = vmread host_fs_base s1
      in (fs\<lparr>selector := sel, base_address := base\<rparr>, s2))"

definition host_fs_set :: "seg_t \<Rightarrow> vcpu \<Rightarrow> vcpu" where
  "host_fs_set fs s =
     (let s1 = vmwrite host_fs_selector ((ucast (index (selector fs)) :: 32 word) * 8) s
      in vmwrite host_fs_base (base_address fs) s1)"

definition host_gs_get :: "seg_t \<Rightarrow> vcpu \<Rightarrow> seg_t \<times> vcpu" where
  "host_gs_get gs s =
     (let (sel, s1) = vmread host_gs_selector s;
          (base, s2) = vmread host_gs_base s1
      in (gs\<lparr>selector := sel, base_address := base\<rparr>, s2))"

definition host_gs_set :: "seg_t \<Rightarrow> vcpu \<Rightarrow> vcpu" where
  "host_gs_set gs s =
     (let s1 = vmwrite host_gs_selector ((ucast (index (selector gs)) :: 32 word) * 8) s
      in vmwrite host_gs_base (base_address gs) s1)"

definition host_ss_get :: "seg_t \<Rightarrow> vcpu \<Rightarrow> seg_t \<times> vcpu" where
  "host_ss_get ss s =
     (let (sel, s1) = vmread host_ss_selector s
      in (ss\<lparr>selector := sel\<rparr>, s1))"

definition host_ss_set :: "seg_t \<Rightarrow> vcpu \<Rightarrow> vcpu" where
  "host_ss_set ss s =
     vmwrite host_ss_selector ((ucast (index (selector ss)) :: 32 word) * 8) s"

definition host_tr_get :: "seg_t \<Rightarrow> vcpu \<Rightarrow> seg_t \<times> vcpu" where
  "host_tr_get tr s =
     (let (sel, s1) = vmread host_tr_selector s;
          (base, s2) = vmread host_tr_base s1
      in (tr\<lparr>selector := sel, base_address := base\<rparr>, s2))"

definition host_tr_set :: "seg_t \<Rightarrow> vcpu \<Rightarrow> vcpu" where
  "host_tr_set tr s =
     (let s1 = vmwrite host_tr_selector ((ucast (index (selector tr)) :: 32 word) * 8) s
      in vmwrite host_tr_base (base_address tr) s1)"

section \<open>Concrete inputs\<close>

text \<open>
  A virtual CPU with an empty control structure, and capabilities as a processor
  reports them.
\<close>

definition vcpu0 :: vcpu where
  "vcpu0 = \<lparr>vmcs = (\<lambda>f. 0), trace = [], own_msr_bitmap = [],
     own_io_bitmap = \<lparr>io_a = [], io_b = []\<rparr>, own_suppress_rip_adjust = False,
     msr_bitmap_pa = 0x1000, io_bitmap_a_pa = 0x2000, io_bitmap_b_pa = 0x3000,
     pinbased_cap = \<lparr>allowed_0_settings = 0x16, allowed_1_settings = 0x7F\<rparr>,
     procbased_cap = \<lparr>allowed_0_settings = 0x0401E172, allowed_1_settings = 0xFFF9FFFE\<rparr>,
     entry_cap = \<lparr>allowed_0_settings = 0x11FF, allowed_1_settings = 0xFFFF\<rparr>,
     exit_cap = \<lparr>allowed_0_settings = 0x36DFF, allowed_1_settings = 0x7FFFFF\<rparr>\<rparr>"

text \<open>
  The same virtual CPU on a processor whose processor-based controls do not allow the
  use of IO bitmaps (bit 25 of the allowed-1 settings is clear).
\<close>

definition vcpu_no_io_bitmaps :: vcpu where
  "vcpu_no_io_bitmaps =
     vcpu0\<lparr>procbased_cap := \<lparr>allowed_0_settings = 0x0401E172,
                               allowed_1_settings = 0xFDF9FFFE\<rparr>\<rparr>"

text \<open>
  The same virtual CPU just after a VM exit for a breakpoint (#BP, a software exception
  with vector 3) raised by a one-byte instruction, and after a VM exit for a page fault
  with error code 2.
\<close>

definition vcpu_exit_bp :: vcpu where
  "vcpu_exit_bp =
     vcpu0\<lparr>vmcs := (\<lambda>f. 0)(vmexit_interruption_info := 0x80000603,
                              vmexit_instruction_length := 1)\<rparr>"

definition vcpu_exit_pf :: vcpu where
  "vcpu_exit_pf =
     vcpu0\<lparr>vmcs := (\<lambda>f. 0)(vmexit_interruption_info := 0x80000B0E,
                              vmexit_interruption_error_code := 2,
                              vmexit_instruction_length := 3)\<rparr>"

text \<open>
  Descriptors: a general-protection fault with error code \<open>0x10\<close>, the same without an
  error code, a double fault with error code 0, a double fault with error code 1, a
  divide error, a breakpoint with an unspecified length, a software interrupt with
  length 2, one with length 0, a non-maskable interrupt, and a descriptor that is not
  valid.
\<close>

definition gp_fault :: interrupt_info where
  "gp_fault = \<lparr>ii_info = 0x80000B0D, ii_error_code = 0x10, ii_rip_adjust = - 1\<rparr>"

definition gp_fault_no_code :: interrupt_info where
  "gp_fault_no_code = \<lparr>ii_info = 0x8000030D, ii_error_code = 0, ii_rip_adjust = - 1\<rparr>"

definition df_fault :: interrupt_info where
  "df_fault = \<lparr>ii_info = 0x80000B08, ii_error_code = 0, ii_rip_adjust = - 1\<rparr>"

definition df_fault_nonzero :: interrupt_info where
  "df_fault_nonzero = \<lparr>ii_info = 0x80000B08, ii_error_code = 1, ii_rip_adjust = - 1\<rparr>"

definition divide_error :: interrupt_info where
  "divide_error = \<lparr>ii_info = 0x80000300, ii_error_code = 0, ii_rip_adjust = - 1\<rparr>"

definition breakpoint :: interrupt_info where
  "breakpoint = \<lparr>ii_info = 0x80000603, ii_error_code = 0, ii_rip_adjust = - 1\<rparr>"

definition soft_int :: interrupt_info where
  "soft_int = \<lparr>ii_info = 0x80000480, ii_error_code = 0, ii_rip_adjust = 2\<rparr>"

definition soft_int_zero :: interrupt_info where
  "soft_int_zero = \<lparr>ii_info = 0x80000480, ii_error_code = 0, ii_rip_adjust = 0\<rparr>"

definition nmi_event :: interrupt_info where
  "nmi_event = \<lparr>ii_info = 0x80000202, ii_error_code = 0, ii_rip_adjust = 5\<rparr>"

definition invalid_event :: interrupt_info where
  "invalid_event = \<lparr>ii_info = 0x00000B0D, ii_error_code = 0x10, ii_rip_adjust = 5\<rparr>"

text \<open>A segment whose selector has index 5, the table indicator set and privilege level 3.\<close>

definition user_segment :: seg_t where
  "user_segment = \<lparr>base_address = 0x7000, limit = 0xFFFFF, access = 0xC0F3, selector = 0x2F\<rparr>"

section \<open>Basic facts\<close>

lemma trace_vmwrite: "trace (vmwrite f v s) = trace s @ [VmWrite f (ucast v)]"
  by (simp add: vmwrite_def)

lemma vmcs_vmwrite: "vmcs (vmwrite f v s) = (vmcs s)(f := ucast v)"
  by (simp add: vmwrite_def)

lemma inject_rip_adjust_other:
  "type interrupt \<notin> {software, privileged_exception, software_exception} \<Longrightarrow>
   inject_rip_adjust interrupt s = s"
  by (simp add: inject_rip_adjust_def)

lemma inject_error_code_other:
  "type interrupt \<noteq> hardware_exception \<Longrightarrow> inject_error_code interrupt s = Inr s"
  by (simp add: inject_error_code_def)

lemma inject_invalid:
  "\<not> valid interrupt \<Longrightarrow>
   inject interrupt s = Inr (entry_interruption_info_set (ii_info interrupt) s)"
  by (simp add: inject_def)

lemma inject_hardware_exception:
  "valid interrupt \<Longrightarrow> type interrupt = hardware_exception \<Longrightarrow>
   inject interrupt s =
     inject_error_code interrupt (entry_interruption_info_set (ii_info interrupt) s)"
  by (simp add: inject_def inject_rip_adjust_other split: sum.splits)

lemma inject_software:
  "valid interrupt \<Longrightarrow> type interrupt \<in> {software, privileged_exception, software_exception} \<Longrightarrow>
   inject interrupt s =
     Inr (inject_rip_adjust interrupt (entry_interruption_info_set (ii_info interrupt) s))"
  by (auto simp add: inject_def inject_error_code_other split: sum.splits)

lemma events_info_set:
  "events s (entry_interruption_info_set info s) =
     [VmWrite ctrl_vmentry_interruption_info (ucast info)]"
  by (simp add: events_def entry_interruption_info_set_def trace_vmwrite)

lemma inject_error_code_required:
  assumes "type interrupt = hardware_exception"
    and "vector interrupt \<in> {invalid_tss, segment_not_present, stack_segment_fault,
                               general_protection, page_fault}"
  shows "inject_error_code interrupt s =
           (if error_code_valid interrupt
            then Inr (entry_interruption_error_code_set (ii_error_code interrupt) s)
            else Inl (Assertion_failed, s))"
  using assms by (simp add: inject_error_code_def hvpp_assert_def error_code_def)

lemma zero_vectors_not_required:
  "double_fault \<notin> {invalid_tss, segment_not_present, stack_segment_fault,
                     general_protection, page_fault}"
  "alignment_check \<notin> {invalid_tss, segment_not_present, stack_segment_fault,
                       general_protection, page_fault}"
  by (simp_all add: double_fault_def alignment_check_def invalid_tss_def
      segment_not_present_def stack_segment_fault_def general_protection_def page_fault_def)

lemma inject_error_code_zero:
  assumes "type interrupt = hardware_exception"
    and "vector interrupt \<in> {double_fault, alignment_check}"
  shows "inject_error_code interrupt s =
           (if error_code_valid interrupt \<and> ii_error_code interrupt = 0
            then Inr (entry_interruption_error_code_set 0 s)
            else Inl (Assertion_failed, s))"
proof -
  from assms(2) have "vector interrupt \<notin> {invalid_tss, segment_not_present,
      stack_segment_fault, general_protection, page_fault}"
    using zero_vectors_not_required by auto
  with assms show ?thesis
    by (simp add: inject_error_code_def hvpp_assert_def error_code_def)
qed

lemma inject_error_code_none:
  assumes "vector interrupt \<notin> {invalid_tss, segment_not_present, stack_segment_fault,
                               general_protection, page_fault, double_fault, alignment_check}"
  shows "inject_error_code interrupt s = Inr s"
  using assms by (simp add: inject_error_code_def)

lemma written_error_code_set:
  "written ctrl_vmentry_exception_error_code
     (events s (entry_interruption_error_code_set ec (entry_interruption_info_set info s))) =
   [ucast ec]"
  by (simp add: events_def entry_interruption_error_code_set_def
      entry_interruption_info_set_def trace_vmwrite)

lemma written_error_code_info_set:
  "written ctrl_vmentry_exception_error_code (events s (entry_interruption_info_set info s)) = []"
  by (simp add: events_info_set)

lemma fst_vmread: "fst (vmread f s) = ucast (vmcs s f)"
  by (simp add: vmread_def)

lemma trace_snd_vmread: "trace (snd (vmread f s)) = trace s @ [VmRead f]"
  by (simp add: vmread_def)

lemma vmcs_snd_vmread: "vmcs (snd (vmread f s)) = vmcs s"
  by (simp add: vmread_def)

lemma inject_rip_adjust_unspecified:
  assumes "type interrupt \<in> {software, privileged_exception, software_exception}"
    and "ii_rip_adjust interrupt = - 1"
  shows "inject_rip_adjust interrupt s =
           (if 0 <s (ucast (vmcs s vmexit_instruction_length) :: 32 word)
            then vmwrite ctrl_vmentry_instruction_length
                   (ucast (vmcs s vmexit_instruction_length) :: 32 word)
                   (snd (vmread vmexit_instruction_length s :: 32 word \<times> vcpu))
            else snd (vmread vmexit_instruction_length s :: 32 word \<times> vcpu))"
  using assms
  by (simp add: inject_rip_adjust_def exit_instruction_length_def
      entry_instruction_length_set_def case_prod_beta fst_vmread)

lemma inject_rip_adjust_explicit:
  assumes "type interrupt \<in> {software, privileged_exception, software_exception}"
    and "ii_rip_adjust interrupt \<noteq> - 1"
  shows "inject_rip_adjust interrupt s =
           (if 0 <s ii_rip_adjust interrupt
            then vmwrite ctrl_vmentry_instruction_length (ii_rip_adjust interrupt) s
            else s)"
  using assms
  by (simp add: inject_rip_adjust_def entry_instruction_length_set_def)

lemma take1_events_inject_error_code:
  "take 1 (events s (final_state (inject_error_code interrupt
       (entry_interruption_info_set info s)))) =
   [VmWrite ctrl_vmentry_interruption_info (ucast info)]"
  by (simp add: inject_error_code_def hvpp_assert_def final_state_def
      entry_interruption_error_code_set_def entry_interruption_info_set_def
      events_def trace_vmwrite)

lemma take1_events_inject_rip_adjust:
  assumes "take 1 (events s s1) = [e]"
    and "length (trace s) \<le> length (trace s1)"
  shows "take 1 (events s (inject_rip_adjust interrupt s1)) = [e]"
proof -
  have "\<exists>es. trace (inject_rip_adjust interrupt s1) = trace s1 @ es"
    by (simp add: inject_rip_adjust_def exit_instruction_length_def
        entry_instruction_length_set_def case_prod_beta trace_vmwrite trace_snd_vmread)
  then obtain es where "trace (inject_rip_adjust interrupt s1) = trace s1 @ es" ..
  with assms show ?thesis
    by (cases "events s s1") (simp_all add: events_def)
qed

lemma length_trace_inject_error_code:
  "length (trace s) \<le> length (trace (final_state (inject_error_code interrupt s)))"
  by (simp add: inject_error_code_def hvpp_assert_def final_state_def
      entry_interruption_error_code_set_def trace_vmwrite)

lemma type_simps:
  "type gp_fault = hardware_exception"
  "type gp_fault_no_code = hardware_exception"
  "type df_fault = hardware_exception"
  "type df_fault_nonzero = hardware_exception"
  "type divide_error = hardware_exception"
  "type breakpoint = software_exception"
  "type soft_int = software"
  "type soft_int_zero = software"
  "type nmi_event = nmi"
  by (simp_all add: type_def interrupt_type_of_def gp_fault_def gp_fault_no_code_def
      df_fault_def df_fault_nonzero_def divide_error_def breakpoint_def soft_int_def
      soft_int_zero_def nmi_event_def)

lemma valid_simps:
  "valid gp_fault" "valid gp_fault_no_code" "valid df_fault" "valid df_fault_nonzero"
  "valid divide_error" "valid breakpoint" "valid soft_int" "valid soft_int_zero"
  "valid nmi_event" "\<not> valid invalid_event"
  by (simp_all add: valid_def gp_fault_def gp_fault_no_code_def
      df_fault_def df_fault_nonzero_def divide_error_def breakpoint_def soft_int_def
      soft_int_zero_def nmi_event_def invalid_event_def)

lemma vector_simps:
  "vector gp_fault = general_protection"
  "vector gp_fault_no_code = general_protection"
  "vector df_fault = double_fault"
  "vector df_fault_nonzero = double_fault"
  "vector divide_error = 0"
  by (simp_all add: vector_def gp_fault_def gp_fault_no_code_def
      df_fault_def df_fault_nonzero_def divide_error_def general_protection_def double_fault_def)

lemma error_code_valid_simps:
  "error_code_valid gp_fault" "\<not> error_code_valid gp_fault_no_code"
  "error_code_valid df_fault" "error_code_valid df_fault_nonzero"
  by (simp_all add: error_code_valid_def gp_fault_def gp_fault_no_code_def
      df_fault_def df_fault_nonzero_def)

lemma zero_not_error_code_vector:
  "(0 :: 8 word) \<notin> {invalid_tss, segment_not_present, stack_segment_fault,
       general_protection, page_fault, double_fault, alignment_check}"
  by (simp add: double_fault_def alignment_check_def invalid_tss_def
      segment_not_present_def stack_segment_fault_def general_protection_def page_fault_def)

lemma vmcs_info_set:
  "vmcs (entry_interruption_info_set info s) =
     (vmcs s)(ctrl_vmentry_interruption_info := ucast info)"
  by (simp add: entry_interruption_info_set_def vmcs_vmwrite)

lemma vmcs_error_code_set:
  "vmcs (entry_interruption_error_code_set ec (entry_interruption_info_set info s)) =
     (vmcs s)(ctrl_vmentry_interruption_info := ucast info,
              ctrl_vmentry_exception_error_code := ucast ec)"
  by (simp add: entry_interruption_error_code_set_def vmcs_info_set vmcs_vmwrite)

lemma vmcs_info_inject_error_code:
  "vmcs (final_state (inject_error_code interrupt s)) ctrl_vmentry_interruption_info =
     vmcs s ctrl_vmentry_interruption_info"
  by (simp add: inject_error_code_def hvpp_assert_def final_state_def
      entry_interruption_error_code_set_def vmcs_vmwrite)

lemma vmcs_info_inject_rip_adjust:
  "vmcs (inject_rip_adjust interrupt s) ctrl_vmentry_interruption_info =
     vmcs s ctrl_vmentry_interruption_info"
  by (simp add: inject_rip_adjust_def exit_instruction_length_def
      entry_instruction_length_set_def case_prod_beta vmcs_vmwrite vmcs_snd_vmread)

lemma vmcs_info_inject:
  "vmcs (final_state (inject interrupt s)) ctrl_vmentry_interruption_info =
     ucast (ii_info interrupt)"
proof (cases "valid interrupt")
  case False
  then show ?thesis
    by (simp add: inject_invalid final_state_def vmcs_info_set)
next
  case True
  let ?s1 = "entry_interruption_info_set (ii_info interrupt) s"
  have s1: "vmcs (final_state (inject_error_code interrupt ?s1)) ctrl_vmentry_interruption_info =
          ucast (ii_info interrupt)"
    by (simp add: vmcs_info_inject_error_code vmcs_info_set)
  show ?thesis
  proof (cases "inject_error_code interrupt ?s1")
    case (Inl e)
    with True s1 show ?thesis
      by (simp add: inject_def)
  next
    case (Inr s2)
    with s1 have "vmcs s2 ctrl_vmentry_interruption_info = ucast (ii_info interrupt)"
      by (simp add: final_state_def)
    with True Inr show ?thesis
      by (simp add: inject_def final_state_def vmcs_info_inject_rip_adjust)
  qed
qed

section \<open>Event injection: the claims\<close>

text \<open>
  Claim C1. For a valid descriptor of type \<open>hardware_exception\<close>: if the vector is one of
  invalid TSS, segment not present, stack-segment fault, general protection and page
  fault, \<open>inject\<close> asserts that the descriptor carries an error code; the run aborts
  exactly when it carries none, and otherwise the error code is the one value written to
  the VM-entry exception-error-code field. If the vector is double fault or alignment
  check, \<open>inject\<close> asserts that the descriptor carries an error code and that the code
  is zero; the run aborts exactly when this fails, and otherwise zero is written. For any
  other vector the run does not abort and the error-code field is not written. An aborted
  run has not written the error-code field. In each case the control structure after the
  run is the one before it with the interruption-information field holding the
  descriptor's information and, when the error code is written, the exception-error-code
  field holding the error code; every other field keeps its value.
\<close>

theorem inject_hardware_exception_error_code:
  assumes "valid interrupt" and "type interrupt = hardware_exception"
  shows "(vector interrupt \<in> {invalid_tss, segment_not_present, stack_segment_fault,
                               general_protection, page_fault} \<longrightarrow>
            (isl (inject interrupt s) \<longleftrightarrow> \<not> error_code_valid interrupt) \<and>
            written ctrl_vmentry_exception_error_code
               (events s (final_state (inject interrupt s))) =
              (if error_code_valid interrupt then [ucast (ii_error_code interrupt)] else []) \<and>
            vmcs (final_state (inject interrupt s)) =
              (if error_code_valid interrupt
               then (vmcs s)(ctrl_vmentry_interruption_info := ucast (ii_info interrupt),
                             ctrl_vmentry_exception_error_code :=
                               ucast (ii_error_code interrupt))
               else (vmcs s)(ctrl_vmentry_interruption_info := ucast (ii_info interrupt)))) \<and>
         (vector interrupt \<in> {double_fault, alignment_check} \<longrightarrow>
            (isl (inject interrupt s) \<longleftrightarrow>
               \<not> (error_code_valid interrupt \<and> ii_error_code interrupt = 0)) \<and>
            written ctrl_vmentry_exception_error_code
               (events s (final_state (inject interrupt s))) =
              (if error_code_valid interrupt \<and> ii_error_code interrupt = 0 then [0] else []) \<and>
            vmcs (final_state (inject interrupt s)) =
              (if error_code_valid interrupt \<and> ii_error_code interrupt = 0
               then (vmcs s)(ctrl_vmentry_interruption_info := ucast (ii_info interrupt),
                             ctrl_vmentry_exception_error_code := 0)
               else (vmcs s)(ctrl_vmentry_interruption_info := ucast (ii_info interrupt)))) \<and>
         (vector interrupt \<notin> {invalid_tss, segment_not_present, stack_segment_fault,
                               general_protection, page_fault, double_fault, alignment_check} \<longrightarrow>
            \<not> isl (inject interrupt s) \<and>
            written ctrl_vmentry_exception_error_code
               (events s (final_state (inject interrupt s))) = [] \<and>
            vmcs (final_state (inject interrupt s)) =
              (vmcs s)(ctrl_vmentry_interruption_info := ucast (ii_info interrupt)))"
proof (intro conjI impI)
  assume v: "vector interrupt \<in> {invalid_tss, segment_not_present, stack_segment_fault,
                               general_protection, page_fault}"
  show "isl (inject interrupt s) \<longleftrightarrow> \<not> error_code_valid interrupt"
    by (simp add: inject_hardware_exception [OF assms] inject_error_code_required [OF assms(2) v])
  show "written ctrl_vmentry_exception_error_code
               (events s (final_state (inject interrupt s))) =
              (if error_code_valid interrupt then [ucast (ii_error_code interrupt)] else [])"
    by (simp add: inject_hardware_exception [OF assms] inject_error_code_required [OF assms(2) v]
        final_state_def written_error_code_set written_error_code_info_set)
  show "vmcs (final_state (inject interrupt s)) =
              (if error_code_valid interrupt
               then (vmcs s)(ctrl_vmentry_interruption_info := ucast (ii_info interrupt),
                             ctrl_vmentry_exception_error_code :=
                               ucast (ii_error_code interrupt))
               else (vmcs s)(ctrl_vmentry_interruption_info := ucast (ii_info interrupt)))"
    by (simp add: inject_hardware_exception [OF assms] inject_error_code_required [OF assms(2) v]
        final_state_def vmcs_error_code_set vmcs_info_set)
next
  assume v: "vector interrupt \<in> {double_fault, alignment_check}"
  show "isl (inject interrupt s) \<longleftrightarrow>
               \<not> (error_code_valid interrupt \<and> ii_error_code interrupt = 0)"
    by (simp add: inject_hardware_exception [OF assms] inject_error_code_zero [OF assms(2) v])
  show "written ctrl_vmentry_exception_error_code
               (events s (final_state (inject interrupt s))) =
              (if error_code_valid interrupt \<and> ii_error_code interrupt = 0 then [0] else [])"
    by (simp add: inject_hardware_exception [OF assms] inject_error_code_zero [OF assms(2) v]
        final_state_def written_error_code_set written_error_code_info_set)
  show "vmcs (final_state (inject interrupt s)) =
              (if error_code_valid interrupt \<and> ii_error_code interrupt = 0
               then (vmcs s)(ctrl_vmentry_interruption_info := ucast (ii_info interrupt),
                             ctrl_vmentry_exception_error_code := 0)
               else (vmcs s)(ctrl_vmentry_interruption_info := ucast (ii_info interrupt)))"
    by (simp add: inject_hardware_exception [OF assms] inject_error_code_zero [OF assms(2) v]
        final_state_def vmcs_error_code_set vmcs_info_set)
next
  assume v: "vector interrupt \<notin> {invalid_tss, segment_not_present, stack_segment_fault,
                               general_protection, page_fault, double_fault, alignment_check}"
  show "\<not> isl (inject interrupt s)"
    by (simp add: inject_hardware_exception [OF assms] inject_error_code_none [OF v])
  show "written ctrl_vmentry_exception_error_code
               (events s (final_state (inject interrupt s))) = []"
    by (simp add: inject_hardware_exception [OF assms] inject_error_code_none [OF v]
        final_state_def written_error_code_info_set)
  show "vmcs (final_state (inject interrupt s)) =
              (vmcs s)(ctrl_vmentry_interruption_info := ucast (ii_info interrupt))"
    by (simp add: inject_hardware_exception [OF assms] inject_error_code_none [OF v]
        final_state_def vmcs_info_set)
qed

theorem inject_hardware_exception_error_code_witness:
  "valid gp_fault \<and> type gp_fault = hardware_exception \<and>
   vector gp_fault \<in> {invalid_tss, segment_not_present, stack_segment_fault,
                        general_protection, page_fault} \<and>
   \<not> isl (inject gp_fault vcpu0) \<and>
   written ctrl_vmentry_exception_error_code
     (events vcpu0 (final_state (inject gp_fault vcpu0))) = [0x10] \<and>
   vmcs (final_state (inject gp_fault vcpu0)) ctrl_vmentry_exception_error_code = 0x10 \<and>
   vmcs (final_state (inject gp_fault vcpu0)) ctrl_vmentry_interruption_info = 0x80000B0D \<and>
   valid gp_fault_no_code \<and> type gp_fault_no_code = hardware_exception \<and>
   isl (inject gp_fault_no_code vcpu0) \<and>
   vmcs (final_state (inject gp_fault_no_code vcpu0)) ctrl_vmentry_exception_error_code = 0 \<and>
   valid df_fault \<and> type df_fault = hardware_exception \<and>
   vector df_fault \<in> {double_fault, alignment_check} \<and>
   \<not> isl (inject df_fault vcpu0) \<and>
   written ctrl_vmentry_exception_error_code
     (events vcpu0 (final_state (inject df_fault vcpu0))) = [0] \<and>
   isl (inject df_fault_nonzero vcpu0) \<and>
   valid divide_error \<and> type divide_error = hardware_exception \<and>
   vector divide_error \<notin> {invalid_tss, segment_not_present, stack_segment_fault,
       general_protection, page_fault, double_fault, alignment_check} \<and>
   \<not> isl (inject divide_error vcpu0) \<and>
   written ctrl_vmentry_exception_error_code
     (events vcpu0 (final_state (inject divide_error vcpu0))) = []"
proof -
  have e: "ii_error_code gp_fault = 0x10" "ii_error_code df_fault = 0"
    "ii_error_code df_fault_nonzero = 1" "ii_info gp_fault = 0x80000B0D"
    by (simp_all add: gp_fault_def df_fault_def df_fault_nonzero_def)
  have z: "vmcs vcpu0 = (\<lambda>f. 0)"
    by (simp add: vcpu0_def)
  have g: "general_protection \<in> {invalid_tss, segment_not_present, stack_segment_fault,
                        general_protection, page_fault}"
    by simp
  from inject_hardware_exception_error_code [OF valid_simps(1) type_simps(1), of vcpu0]
    inject_hardware_exception_error_code [OF valid_simps(2) type_simps(2), of vcpu0]
    inject_hardware_exception_error_code [OF valid_simps(3) type_simps(3), of vcpu0]
    inject_hardware_exception_error_code [OF valid_simps(4) type_simps(4), of vcpu0]
    inject_hardware_exception_error_code [OF valid_simps(5) type_simps(5), of vcpu0]
    zero_not_error_code_vector
  show ?thesis
    by (simp add: type_simps valid_simps vector_simps error_code_valid_simps e g z
        zero_vectors_not_required)
qed

text \<open>
  Claim C2. For a valid descriptor of type \<open>software\<close>, \<open>privileged_exception\<close> or
  \<open>software_exception\<close>: the run does not abort; if \<open>rip_adjust\<close> is unspecified (-1),
  \<open>inject\<close> reads the VM-exit instruction length (and nothing else) and the resolved
  length is that value, otherwise nothing is read and the resolved length is the
  descriptor's. If the resolved length, a signed 32-bit number, is greater than zero, it
  is the one value written to the VM-entry instruction-length field, which holds it
  afterwards; if it is zero (or negative) the field is not written and keeps its value.
\<close>

theorem inject_software_instruction_length:
  assumes "valid interrupt"
    and "type interrupt \<in> {software, privileged_exception, software_exception}"
  shows "let resolved = (if ii_rip_adjust interrupt = - 1
                         then ucast (vmcs s vmexit_instruction_length)
                         else ii_rip_adjust interrupt);
             s' = final_state (inject interrupt s)
         in \<not> isl (inject interrupt s) \<and>
            reads (events s s') =
              (if ii_rip_adjust interrupt = - 1 then [vmexit_instruction_length] else []) \<and>
            (0 <s resolved \<longrightarrow>
               written ctrl_vmentry_instruction_length (events s s') = [ucast resolved] \<and>
               vmcs s' ctrl_vmentry_instruction_length = ucast resolved) \<and>
            (\<not> 0 <s resolved \<longrightarrow>
               written ctrl_vmentry_instruction_length (events s s') = [] \<and>
               vmcs s' ctrl_vmentry_instruction_length = vmcs s ctrl_vmentry_instruction_length)"
proof (cases "ii_rip_adjust interrupt = - 1")
  case True
  show ?thesis
    unfolding inject_software [OF assms] Let_def
    by (simp add: True inject_rip_adjust_unspecified [OF assms(2) True] final_state_def
        entry_interruption_info_set_def events_def trace_vmwrite vmcs_vmwrite
        trace_snd_vmread vmcs_snd_vmread)
next
  case False
  show ?thesis
    unfolding inject_software [OF assms] Let_def
    by (simp add: False inject_rip_adjust_explicit [OF assms(2) False] final_state_def
        entry_interruption_info_set_def events_def trace_vmwrite vmcs_vmwrite)
qed

theorem inject_software_instruction_length_witness:
  "valid breakpoint \<and>
   type breakpoint \<in> {software, privileged_exception, software_exception} \<and>
   reads (events vcpu_exit_bp (final_state (inject breakpoint vcpu_exit_bp))) =
     [vmexit_instruction_length] \<and>
   written ctrl_vmentry_instruction_length
     (events vcpu_exit_bp (final_state (inject breakpoint vcpu_exit_bp))) = [1] \<and>
   valid soft_int \<and>
   written ctrl_vmentry_instruction_length
     (events vcpu0 (final_state (inject soft_int vcpu0))) = [2] \<and>
   valid soft_int_zero \<and>
   written ctrl_vmentry_instruction_length
     (events vcpu0 (final_state (inject soft_int_zero vcpu0))) = []"
proof -
  have h: "valid breakpoint" "valid soft_int" "valid soft_int_zero"
    "type breakpoint \<in> {software, privileged_exception, software_exception}"
    "type soft_int \<in> {software, privileged_exception, software_exception}"
    "type soft_int_zero \<in> {software, privileged_exception, software_exception}"
    by (simp_all add: valid_simps type_simps)
  have r: "ii_rip_adjust breakpoint = - 1" "ii_rip_adjust soft_int = 2"
    "ii_rip_adjust soft_int_zero = 0"
    by (simp_all add: breakpoint_def soft_int_def soft_int_zero_def)
  have v: "vmcs vcpu_exit_bp vmexit_instruction_length = 1"
    by (simp add: vcpu_exit_bp_def)
  have c: "0 <s (1 :: 32 word)" "0 <s (2 :: 32 word)" "(2 :: 32 word) \<noteq> - 1"
    "(0 :: 32 word) \<noteq> - 1"
    by (simp_all add: word_sless_alt)
  from inject_software_instruction_length [OF h(1) h(4), of vcpu_exit_bp]
    inject_software_instruction_length [OF h(2) h(5), of vcpu0]
    inject_software_instruction_length [OF h(3) h(6), of vcpu0]
  show ?thesis
    using h by (simp add: Let_def r v c)
qed

text \<open>
  Claim C3. For a descriptor of type \<open>external\<close>, \<open>nmi\<close>, \<open>hardware_exception\<close> or
  \<open>other_event\<close>, whatever its \<open>rip_adjust\<close>, its validity and the outcome of the
  run, \<open>inject\<close> never writes the VM-entry instruction-length field.
\<close>

theorem inject_other_types_no_instruction_length:
  assumes "type interrupt \<in> {external, nmi, hardware_exception, other_event}"
  shows "written ctrl_vmentry_instruction_length
           (events s (final_state (inject interrupt s))) = []"
proof -
  let ?s1 = "entry_interruption_info_set (ii_info interrupt) s"
  from assms have nt: "type interrupt \<notin> {software, privileged_exception, software_exception}"
    by auto
  have w: "written ctrl_vmentry_instruction_length
             (events s (final_state (inject_error_code interrupt ?s1))) = []"
    by (simp add: inject_error_code_def hvpp_assert_def final_state_def
        entry_interruption_error_code_set_def entry_interruption_info_set_def
        events_def trace_vmwrite)
  show ?thesis
  proof (cases "valid interrupt")
    case False
    then show ?thesis
      by (simp add: inject_invalid final_state_def events_info_set)
  next
    case True
    have "final_state (inject interrupt s) = final_state (inject_error_code interrupt ?s1)"
      using True
      by (simp add: inject_def final_state_def inject_rip_adjust_other [OF nt] split: sum.splits)
    with w show ?thesis by simp
  qed
qed

theorem inject_other_types_no_instruction_length_witness:
  "type nmi_event \<in> {external, nmi, hardware_exception, other_event} \<and>
   written ctrl_vmentry_instruction_length
     (events vcpu0 (final_state (inject nmi_event vcpu0))) = []"
proof -
  have h: "type nmi_event \<in> {external, nmi, hardware_exception, other_event}"
    by (simp add: type_simps)
  from h inject_other_types_no_instruction_length [OF h, of vcpu0] show ?thesis by simp
qed

text \<open>
  Claim C9. For every descriptor, the first hardware access of \<open>inject\<close> is the write of
  the descriptor's interruption information, valid bit included, to the VM-entry
  interruption-information field, whether the descriptor is valid or not and whether the
  run aborts later or not, and the field holds this information at the end of the run.
  When the descriptor is not valid this is the only access: the
  run does not abort and every other field of the control structure, the VM-entry
  error-code and instruction-length fields among them, keeps its value.
\<close>

theorem inject_writes_interruption_info:
  "take 1 (events s (final_state (inject interrupt s))) =
     [VmWrite ctrl_vmentry_interruption_info (ucast (ii_info interrupt))] \<and>
   vmcs (final_state (inject interrupt s)) ctrl_vmentry_interruption_info =
     ucast (ii_info interrupt) \<and>
   (\<not> valid interrupt \<longrightarrow>
      \<not> isl (inject interrupt s) \<and>
      events s (final_state (inject interrupt s)) =
        [VmWrite ctrl_vmentry_interruption_info (ucast (ii_info interrupt))] \<and>
      vmcs (final_state (inject interrupt s)) =
        (vmcs s)(ctrl_vmentry_interruption_info := ucast (ii_info interrupt)))"
proof (intro conjI impI)
  let ?s1 = "entry_interruption_info_set (ii_info interrupt) s"
  have len: "length (trace s) \<le> length (trace ?s1)"
    by (simp add: entry_interruption_info_set_def trace_vmwrite)
  show "take 1 (events s (final_state (inject interrupt s))) =
     [VmWrite ctrl_vmentry_interruption_info (ucast (ii_info interrupt))]"
  proof (cases "valid interrupt")
    case False
    then show ?thesis
      by (simp add: inject_invalid final_state_def events_info_set)
  next
    case True
    show ?thesis
    proof (cases "inject_error_code interrupt ?s1")
      case (Inl e)
      with True take1_events_inject_error_code [of s interrupt "ii_info interrupt"]
      show ?thesis
        by (simp add: inject_def)
    next
      case (Inr s2)
      with take1_events_inject_error_code [of s interrupt "ii_info interrupt"]
        length_trace_inject_error_code [of ?s1 interrupt] len
      have "take 1 (events s s2) =
              [VmWrite ctrl_vmentry_interruption_info (ucast (ii_info interrupt))]"
        and "length (trace s) \<le> length (trace s2)"
        by (simp_all add: final_state_def)
      from take1_events_inject_rip_adjust [OF this] True Inr show ?thesis
        by (simp add: inject_def final_state_def)
    qed
  qed
  show "vmcs (final_state (inject interrupt s)) ctrl_vmentry_interruption_info =
     ucast (ii_info interrupt)"
    by (rule vmcs_info_inject)
next
  assume inv: "\<not> valid interrupt"
  then show "\<not> isl (inject interrupt s)"
    and "events s (final_state (inject interrupt s)) =
        [VmWrite ctrl_vmentry_interruption_info (ucast (ii_info interrupt))]"
    by (simp_all add: inject_invalid final_state_def events_info_set)
  from inv show "vmcs (final_state (inject interrupt s)) =
        (vmcs s)(ctrl_vmentry_interruption_info := ucast (ii_info interrupt))"
    by (simp add: inject_invalid final_state_def entry_interruption_info_set_def vmcs_vmwrite)
qed

theorem inject_writes_interruption_info_witness:
  "\<not> valid invalid_event \<and>
   \<not> isl (inject invalid_event vcpu0) \<and>
   events vcpu0 (final_state (inject invalid_event vcpu0)) =
     [VmWrite ctrl_vmentry_interruption_info 0xB0D] \<and>
   vmcs (final_state (inject invalid_event vcpu0)) ctrl_vmentry_exception_error_code = 0 \<and>
   vmcs (final_state (inject invalid_event vcpu0)) ctrl_vmentry_instruction_length = 0 \<and>
   vmcs (final_state (inject invalid_event vcpu0)) ctrl_vmentry_interruption_info = 0xB0D \<and>
   vmcs (final_state (inject breakpoint vcpu0)) ctrl_vmentry_interruption_info = 0x80000603"
proof -
  have h: "\<not> valid invalid_event"
    by (simp add: valid_simps)
  have v: "vmcs vcpu0 = (\<lambda>f. 0)"
    by (simp add: vcpu0_def)
  have i: "ii_info invalid_event = 0xB0D" "ii_info breakpoint = 0x80000603"
    by (simp_all add: invalid_event_def breakpoint_def)
  from inject_writes_interruption_info [of vcpu0 invalid_event]
    inject_writes_interruption_info [of vcpu0 breakpoint] h
  show ?thesis
    by (simp add: v i)
qed

section \<open>Accessors: basic facts\<close>

lemma ucast_64_32: "(ucast (ucast (v :: 32 word) :: 64 word) :: 32 word) = v"
  by (simp add: ucast_up_ucast_id is_up)

lemma ucast_64_16: "(ucast (ucast (v :: 16 word) :: 64 word) :: 16 word) = v"
  by (simp add: ucast_up_ucast_id is_up)

lemma events_vmwrite_same: "events s (vmwrite f v s) = [VmWrite f (ucast v)]"
  by (simp add: events_def trace_vmwrite)

lemma vmread_vmwrite_32:
  "fst (vmread f (vmwrite f (v :: 32 word) s) :: 32 word \<times> vcpu) = v"
  by (simp add: fst_vmread vmcs_vmwrite ucast_64_32)

lemma vmread_vmwrite_64:
  "fst (vmread f (vmwrite f (v :: 64 word) s) :: 64 word \<times> vcpu) = v"
  by (simp add: fst_vmread vmcs_vmwrite)

lemma cap_vmwrite:
  "pinbased_cap (vmwrite f v s) = pinbased_cap s"
  "procbased_cap (vmwrite f v s) = procbased_cap s"
  "entry_cap (vmwrite f v s) = entry_cap s"
  "exit_cap (vmwrite f v s) = exit_cap s"
  by (simp_all add: vmwrite_def)

lemma own_vmwrite:
  "own_msr_bitmap (vmwrite f v s) = own_msr_bitmap s"
  "own_io_bitmap (vmwrite f v s) = own_io_bitmap s"
  "own_suppress_rip_adjust (vmwrite f v s) = own_suppress_rip_adjust s"
  "msr_bitmap_pa (vmwrite f v s) = msr_bitmap_pa s"
  "io_bitmap_a_pa (vmwrite f v s) = io_bitmap_a_pa s"
  "io_bitmap_b_pa (vmwrite f v s) = io_bitmap_b_pa s"
  by (simp_all add: vmwrite_def)

lemma own_snd_vmread:
  "own_msr_bitmap (snd (vmread f s)) = own_msr_bitmap s"
  "own_io_bitmap (snd (vmread f s)) = own_io_bitmap s"
  "own_suppress_rip_adjust (snd (vmread f s)) = own_suppress_rip_adjust s"
  "msr_bitmap_pa (snd (vmread f s)) = msr_bitmap_pa s"
  "io_bitmap_a_pa (snd (vmread f s)) = io_bitmap_a_pa s"
  "io_bitmap_b_pa (snd (vmread f s)) = io_bitmap_b_pa s"
  "pinbased_cap (snd (vmread f s)) = pinbased_cap s"
  "procbased_cap (snd (vmread f s)) = procbased_cap s"
  "entry_cap (snd (vmread f s)) = entry_cap s"
  "exit_cap (snd (vmread f s)) = exit_cap s"
  by (simp_all add: vmread_def)

lemma adjust_mandatory_1:
  "bit (allowed_0_settings cap) n \<Longrightarrow> bit (adjust cap v) n"
  by (simp add: adjust_def bit_or_iff)

lemma adjust_mandatory_0:
  assumes "consistent cap" and "\<not> bit (allowed_1_settings cap) n"
  shows "\<not> bit (adjust cap v) n"
proof -
  have "\<not> bit (allowed_0_settings cap AND NOT (allowed_1_settings cap)) n"
    using assms(1) by (simp add: consistent_def)
  then have "\<not> bit (allowed_0_settings cap) n"
    using assms(2) by (auto simp add: bit_and_iff bit_not_iff dest: bit_imp_possible_bit)
  with assms(2) show ?thesis
    by (simp add: adjust_def bit_or_iff bit_and_iff)
qed

lemma consistent_vcpu0:
  "consistent (pinbased_cap vcpu0)" "consistent (procbased_cap vcpu0)"
  "consistent (entry_cap vcpu0)" "consistent (exit_cap vcpu0)"
  by (simp_all add: consistent_def vcpu0_def)

lemma io_bitmap_set_unfold:
  "io_bitmap_set bm s =
     vmwrite ctrl_io_bitmap_b_address (io_bitmap_b_pa s)
      (vmwrite ctrl_io_bitmap_a_address (io_bitmap_a_pa s)
        (vmwrite ctrl_processor_based_vm_execution_controls
           (adjust (procbased_cap s)
              (set_bit use_io_bitmaps
                 (ucast (vmcs s ctrl_processor_based_vm_execution_controls))))
           (snd (vmread ctrl_processor_based_vm_execution_controls
                  (s\<lparr>own_io_bitmap := bm\<rparr>) :: 32 word \<times> vcpu))))"
  by (simp add: io_bitmap_set_def Let_def case_prod_beta processor_based_controls_get_def
      processor_based_controls_set_def fst_vmread own_vmwrite own_snd_vmread cap_vmwrite)

lemma events_io_bitmap_set:
  "events s (io_bitmap_set bm s) =
     [VmRead ctrl_processor_based_vm_execution_controls,
      VmWrite ctrl_processor_based_vm_execution_controls
        (ucast (adjust (procbased_cap s)
           (set_bit use_io_bitmaps
              (ucast (vmcs s ctrl_processor_based_vm_execution_controls))))),
      VmWrite ctrl_io_bitmap_a_address (io_bitmap_a_pa s),
      VmWrite ctrl_io_bitmap_b_address (io_bitmap_b_pa s)]"
  by (simp add: io_bitmap_set_unfold events_def trace_vmwrite trace_snd_vmread)

lemma procbased_after_io_bitmap_set:
  "fst (processor_based_controls_get (io_bitmap_set bm s)) =
     adjust (procbased_cap s)
       (set_bit use_io_bitmaps (ucast (vmcs s ctrl_processor_based_vm_execution_controls)))"
  by (simp add: io_bitmap_set_unfold processor_based_controls_get_def fst_vmread
      vmcs_vmwrite ucast_64_32)

lemma own_io_bitmap_set: "own_io_bitmap (io_bitmap_set bm s) = bm"
  by (simp add: io_bitmap_set_unfold own_vmwrite own_snd_vmread)

lemma use_io_bitmaps_after_set:
  "bit (fst (processor_based_controls_get (io_bitmap_set bm s))) use_io_bitmaps \<longleftrightarrow>
     bit (allowed_1_settings (procbased_cap s)) use_io_bitmaps \<or>
     bit (allowed_0_settings (procbased_cap s)) use_io_bitmaps"
  by (simp add: procbased_after_io_bitmap_set adjust_def bit_or_iff bit_and_iff
      bit_set_bit_iff use_io_bitmaps_def)

lemma exit_interrupt_info_invalid:
  assumes "\<not> bit (ucast (vmcs s vmexit_interruption_info) :: 32 word) 31"
  shows "exit_interrupt_info result s =
           (result\<lparr>ii_info := ucast (vmcs s vmexit_interruption_info)\<rparr>,
            snd (vmread vmexit_interruption_info s :: 32 word \<times> vcpu))"
  using assms
  by (simp add: exit_interrupt_info_def exit_interruption_info_def case_prod_beta
      fst_vmread valid_def Let_def)

lemma exit_interrupt_info_valid_no_code:
  assumes "bit (ucast (vmcs s vmexit_interruption_info) :: 32 word) 31"
    and "\<not> bit (ucast (vmcs s vmexit_interruption_info) :: 32 word) 11"
  shows "exit_interrupt_info result s =
           (result\<lparr>ii_info := ucast (vmcs s vmexit_interruption_info),
                   ii_rip_adjust := ucast (vmcs s vmexit_instruction_length)\<rparr>,
            snd (vmread vmexit_instruction_length
              (snd (vmread vmexit_interruption_info s :: 32 word \<times> vcpu))
                :: 32 word \<times> vcpu))"
  using assms
  by (simp add: exit_interrupt_info_def exit_interruption_info_def
      exit_instruction_length_def case_prod_beta
      fst_vmread vmcs_snd_vmread valid_def error_code_valid_def Let_def)

lemma exit_interrupt_info_valid_code:
  assumes "bit (ucast (vmcs s vmexit_interruption_info) :: 32 word) 31"
    and "bit (ucast (vmcs s vmexit_interruption_info) :: 32 word) 11"
  shows "exit_interrupt_info result s =
           (result\<lparr>ii_info := ucast (vmcs s vmexit_interruption_info),
                   ii_error_code := ucast (vmcs s vmexit_interruption_error_code),
                   ii_rip_adjust := ucast (vmcs s vmexit_instruction_length)\<rparr>,
            snd (vmread vmexit_instruction_length
              (snd (vmread vmexit_interruption_error_code
                (snd (vmread vmexit_interruption_info s :: 32 word \<times> vcpu))
                  :: 32 word \<times> vcpu)) :: 32 word \<times> vcpu))"
  using assms
  by (simp add: exit_interrupt_info_def exit_interruption_info_def
      exit_instruction_length_def exit_interruption_error_code_def case_prod_beta
      fst_vmread vmcs_snd_vmread valid_def error_code_valid_def Let_def)

lemma round_trip_64:
  "fst (guest_cr0_shadow_get (guest_cr0_shadow_set v s)) = v"
  "fst (guest_cr0_get (guest_cr0_set v s)) = v"
  "fst (guest_cr3_get (guest_cr3_set v s)) = v"
  "fst (guest_cr4_shadow_get (guest_cr4_shadow_set v s)) = v"
  "fst (guest_cr4_get (guest_cr4_set v s)) = v"
  "fst (guest_dr7_get (guest_dr7_set v s)) = v"
  "fst (guest_debugctl_get (guest_debugctl_set v s)) = v"
  "fst (guest_rsp_get (guest_rsp_set v s)) = v"
  "fst (guest_rip_get (guest_rip_set v s)) = v"
  "fst (guest_rflags_get (guest_rflags_set v s)) = v"
  "fst (host_cr0_get (host_cr0_set v s)) = v"
  "fst (host_cr3_get (host_cr3_set v s)) = v"
  "fst (host_cr4_get (host_cr4_set v s)) = v"
  "fst (host_rsp_get (host_rsp_set v s)) = v"
  "fst (host_rip_get (host_rip_set v s)) = v"
  by (simp_all add: guest_cr0_shadow_get_def guest_cr0_shadow_set_def guest_cr0_get_def guest_cr0_set_def guest_cr3_get_def guest_cr3_set_def guest_cr4_shadow_get_def guest_cr4_shadow_set_def guest_cr4_get_def guest_cr4_set_def guest_dr7_get_def guest_dr7_set_def guest_debugctl_get_def guest_debugctl_set_def guest_rsp_get_def guest_rsp_set_def guest_rip_get_def guest_rip_set_def guest_rflags_get_def guest_rflags_set_def host_cr0_get_def host_cr0_set_def host_cr3_get_def host_cr3_set_def host_cr4_get_def host_cr4_set_def host_rsp_get_def host_rsp_set_def host_rip_get_def host_rip_set_def
      vmread_vmwrite_64)

lemma round_trip_32:
  "fst (processor_based_controls2_get (processor_based_controls2_set c s)) = c"
  "fst (exception_bitmap_get (exception_bitmap_set c s)) = c"
  "fst (pagefault_error_code_mask_get (pagefault_error_code_mask_set c s)) = c"
  "fst (pagefault_error_code_match_get (pagefault_error_code_match_set c s)) = c"
  "fst (entry_instruction_length_get (entry_instruction_length_set c s)) = c"
  "fst (entry_interruption_info_get (entry_interruption_info_set c s)) = c"
  "fst (entry_interruption_error_code_get (entry_interruption_error_code_set c s)) = c"
  by (simp_all add: processor_based_controls2_get_def processor_based_controls2_set_def exception_bitmap_get_def exception_bitmap_set_def pagefault_error_code_mask_get_def pagefault_error_code_mask_set_def pagefault_error_code_match_get_def pagefault_error_code_match_set_def entry_instruction_length_get_def entry_instruction_length_set_def entry_interruption_info_get_def entry_interruption_info_set_def entry_interruption_error_code_get_def entry_interruption_error_code_set_def
      vmread_vmwrite_32)

lemma round_trip_adjusted:
  "fst (pin_based_controls_get (pin_based_controls_set c s)) = adjust (pinbased_cap s) c"
  "fst (processor_based_controls_get (processor_based_controls_set c s)) = adjust (procbased_cap s) c"
  "fst (vm_entry_controls_get (vm_entry_controls_set c s)) = adjust (entry_cap s) c"
  "fst (vm_exit_controls_get (vm_exit_controls_set c s)) = adjust (exit_cap s) c"
  by (simp_all add: pin_based_controls_get_def pin_based_controls_set_def processor_based_controls_get_def processor_based_controls_set_def vm_entry_controls_get_def vm_entry_controls_set_def vm_exit_controls_get_def vm_exit_controls_set_def
      vmread_vmwrite_32)

lemma round_trip_guest_table:
  "fst (guest_gdtr_get (guest_gdtr_set t s)) = t"
  "fst (guest_idtr_get (guest_idtr_set t s)) = t"
  by (simp_all add: guest_gdtr_get_def guest_gdtr_set_def guest_idtr_get_def
      guest_idtr_set_def case_prod_beta Let_def fst_vmread vmcs_snd_vmread vmcs_vmwrite
      ucast_64_16)

lemma round_trip_guest_seg: "fst (guest_seg_get r (guest_seg_set r seg s)) = seg"
  by (simp add: guest_seg_get_def guest_seg_set_def case_prod_beta Let_def fst_vmread
      vmcs_snd_vmread vmcs_vmwrite ucast_64_16 ucast_64_32)

lemma round_trip_guest_segments:
  "fst (guest_cs_get (guest_cs_set seg s)) = seg"
  "fst (guest_ds_get (guest_ds_set seg s)) = seg"
  "fst (guest_es_get (guest_es_set seg s)) = seg"
  "fst (guest_fs_get (guest_fs_set seg s)) = seg"
  "fst (guest_gs_get (guest_gs_set seg s)) = seg"
  "fst (guest_ss_get (guest_ss_set seg s)) = seg"
  "fst (guest_tr_get (guest_tr_set seg s)) = seg"
  "fst (guest_ldtr_get (guest_ldtr_set seg s)) = seg"
  by (simp_all add: guest_cs_get_def guest_cs_set_def guest_ds_get_def guest_ds_set_def guest_es_get_def guest_es_set_def guest_fs_get_def guest_fs_set_def guest_gs_get_def guest_gs_set_def guest_ss_get_def guest_ss_set_def guest_tr_get_def guest_tr_set_def guest_ldtr_get_def guest_ldtr_set_def
      round_trip_guest_seg)

lemma round_trip_bitmaps:
  "msr_bitmap_get (msr_bitmap_set mb s) = mb"
  "io_bitmap_get (io_bitmap_set ib s) = ib"
  by (simp_all add: msr_bitmap_get_def msr_bitmap_set_def Let_def own_vmwrite
      io_bitmap_get_def own_io_bitmap_set)

lemma round_trip_host_table:
  "table_base_address (fst (host_gdtr_get t0 (host_gdtr_set t s))) = table_base_address t"
  "table_limit (fst (host_gdtr_get t0 (host_gdtr_set t s))) = table_limit t0"
  "table_base_address (fst (host_idtr_get t0 (host_idtr_set t s))) = table_base_address t"
  "table_limit (fst (host_idtr_get t0 (host_idtr_set t s))) = table_limit t0"
  by (simp_all add: host_gdtr_get_def host_gdtr_set_def host_idtr_get_def
      host_idtr_set_def case_prod_beta Let_def fst_vmread vmcs_vmwrite)

lemma index_times_8: "index sel * 8 = push_bit 3 (drop_bit 3 sel)"
  by (simp add: index_def push_bit_eq_mult)

lemma selector_value_64:
  "(ucast ((ucast (index sel) :: 32 word) * 8) :: 64 word) = ucast (index sel * 8)"
proof -
  have "(ucast (push_bit 3 (ucast (drop_bit 3 sel) :: 32 word)) :: 64 word) =
        ucast (push_bit 3 (drop_bit 3 sel))"
    by (rule bit_word_eqI) (auto simp add: bit_simps dest: bit_imp_le_length)
  then show ?thesis
    by (simp add: index_def push_bit_eq_mult)
qed

lemma events_host_selector_set:
  "events s (host_cs_set seg s) =
     [VmWrite host_cs_selector (ucast (index (selector seg) * 8))]"
  "events s (host_ds_set seg s) =
     [VmWrite host_ds_selector (ucast (index (selector seg) * 8))]"
  "events s (host_es_set seg s) =
     [VmWrite host_es_selector (ucast (index (selector seg) * 8))]"
  "events s (host_ss_set seg s) =
     [VmWrite host_ss_selector (ucast (index (selector seg) * 8))]"
  "events s (host_fs_set seg s) =
     [VmWrite host_fs_selector (ucast (index (selector seg) * 8)),
      VmWrite host_fs_base (base_address seg)]"
  "events s (host_gs_set seg s) =
     [VmWrite host_gs_selector (ucast (index (selector seg) * 8)),
      VmWrite host_gs_base (base_address seg)]"
  "events s (host_tr_set seg s) =
     [VmWrite host_tr_selector (ucast (index (selector seg) * 8)),
      VmWrite host_tr_base (base_address seg)]"
  by (simp_all add: host_cs_set_def host_ds_set_def host_es_set_def host_ss_set_def host_fs_set_def host_gs_set_def host_tr_set_def
      Let_def events_def trace_vmwrite selector_value_64)

lemma round_trip_host_selector:
  "selector (fst (host_cs_get seg0 (host_cs_set seg s))) = index (selector seg) * 8"
  "selector (fst (host_ds_get seg0 (host_ds_set seg s))) = index (selector seg) * 8"
  "selector (fst (host_es_get seg0 (host_es_set seg s))) = index (selector seg) * 8"
  "selector (fst (host_ss_get seg0 (host_ss_set seg s))) = index (selector seg) * 8"
  "selector (fst (host_fs_get seg0 (host_fs_set seg s))) = index (selector seg) * 8"
  "selector (fst (host_gs_get seg0 (host_gs_set seg s))) = index (selector seg) * 8"
  "selector (fst (host_tr_get seg0 (host_tr_set seg s))) = index (selector seg) * 8"
  by (simp_all add: host_cs_get_def host_cs_set_def host_ds_get_def host_ds_set_def host_es_get_def host_es_set_def host_ss_get_def host_ss_set_def host_fs_get_def host_fs_set_def host_gs_get_def host_gs_set_def host_tr_get_def host_tr_set_def
      Let_def case_prod_beta fst_vmread vmcs_snd_vmread vmcs_vmwrite selector_value_64
      ucast_64_16)

lemma round_trip_host_base:
  "base_address (fst (host_fs_get seg0 (host_fs_set seg s))) = base_address seg"
  "base_address (fst (host_gs_get seg0 (host_gs_set seg s))) = base_address seg"
  "base_address (fst (host_tr_get seg0 (host_tr_set seg s))) = base_address seg"
  by (simp_all add: host_fs_get_def host_fs_set_def host_gs_get_def host_gs_set_def host_tr_get_def host_tr_set_def
      Let_def case_prod_beta fst_vmread vmcs_snd_vmread vmcs_vmwrite)

lemma round_trip_host_rest:
  "limit (fst (host_cs_get seg0 (host_cs_set seg s))) = limit seg0"
  "access (fst (host_cs_get seg0 (host_cs_set seg s))) = access seg0"
  "base_address (fst (host_cs_get seg0 (host_cs_set seg s))) = base_address seg0"
  "limit (fst (host_ds_get seg0 (host_ds_set seg s))) = limit seg0"
  "access (fst (host_ds_get seg0 (host_ds_set seg s))) = access seg0"
  "base_address (fst (host_ds_get seg0 (host_ds_set seg s))) = base_address seg0"
  "limit (fst (host_es_get seg0 (host_es_set seg s))) = limit seg0"
  "access (fst (host_es_get seg0 (host_es_set seg s))) = access seg0"
  "base_address (fst (host_es_get seg0 (host_es_set seg s))) = base_address seg0"
  "limit (fst (host_fs_get seg0 (host_fs_set seg s))) = limit seg0"
  "access (fst (host_fs_get seg0 (host_fs_set seg s))) = access seg0"
  "limit (fst (host_gs_get seg0 (host_gs_set seg s))) = limit seg0"
  "access (fst (host_gs_get seg0 (host_gs_set seg s))) = access seg0"
  "limit (fst (host_ss_get seg0 (host_ss_set seg s))) = limit seg0"
  "access (fst (host_ss_get seg0 (host_ss_set seg s))) = access seg0"
  "base_address (fst (host_ss_get seg0 (host_ss_set seg s))) = base_address seg0"
  "limit (fst (host_tr_get seg0 (host_tr_set seg s))) = limit seg0"
  "access (fst (host_tr_get seg0 (host_tr_set seg s))) = access seg0"
  by (simp_all add: host_cs_get_def host_ds_get_def host_es_get_def host_fs_get_def host_gs_get_def host_ss_get_def host_tr_get_def
      case_prod_beta)

lemma canonical_selector:
  "index (index sel * 8) = index sel"
  "\<not> table (index sel * 8)"
  "request_privilege_level (index sel * 8) = 0"
  "index sel * 8 = sel AND 0xFFF8"
proof -
  show "index (index sel * 8) = index sel"
    unfolding index_times_8 unfolding index_def
    by (rule bit_word_eqI) (auto simp add: bit_simps dest: bit_imp_le_length)
  show "\<not> table (index sel * 8)"
    unfolding index_times_8 by (simp add: table_def bit_simps)
  have m: "(mask 2 :: 16 word) = 3"
    by (simp add: mask_eq_exp_minus_1)
  have "push_bit 3 (drop_bit 3 sel) AND mask 2 = (0 :: 16 word)"
    by (rule bit_word_eqI) (auto simp add: bit_simps)
  then show "request_privilege_level (index sel * 8) = 0"
    unfolding index_times_8 request_privilege_level_def m .
  have n: "(NOT (mask 3) :: 16 word) = 0xFFF8"
    by (simp add: mask_eq_exp_minus_1)
  have "push_bit 3 (drop_bit 3 sel) = sel AND NOT (mask 3)"
    by (rule bit_word_eqI) (auto simp add: bit_simps dest: bit_imp_le_length)
  then show "index sel * 8 = sel AND 0xFFF8"
    unfolding index_times_8 n .
qed

lemma vmcs_control_setters:
  "vmcs (pin_based_controls_set c s) =
     (vmcs s)(ctrl_pin_based_vm_execution_controls := ucast (adjust (pinbased_cap s) c))"
  "vmcs (processor_based_controls_set c s) =
     (vmcs s)(ctrl_processor_based_vm_execution_controls :=
                ucast (adjust (procbased_cap s) c))"
  "vmcs (vm_entry_controls_set c s) =
     (vmcs s)(ctrl_vmentry_controls := ucast (adjust (entry_cap s) c))"
  "vmcs (vm_exit_controls_set c s) =
     (vmcs s)(ctrl_vmexit_controls := ucast (adjust (exit_cap s) c))"
  "vmcs (processor_based_controls2_set c s) =
     (vmcs s)(ctrl_secondary_processor_based_vm_execution_controls := ucast c)"
  by (simp_all add: pin_based_controls_set_def processor_based_controls_set_def
      vm_entry_controls_set_def vm_exit_controls_set_def processor_based_controls2_set_def
      vmcs_vmwrite)

lemma events_control_setters:
  "events s (pin_based_controls_set v s) =
     [VmWrite ctrl_pin_based_vm_execution_controls (ucast (adjust (pinbased_cap s) v))]"
  "events s (processor_based_controls_set v s) =
     [VmWrite ctrl_processor_based_vm_execution_controls (ucast (adjust (procbased_cap s) v))]"
  "events s (vm_entry_controls_set v s) =
     [VmWrite ctrl_vmentry_controls (ucast (adjust (entry_cap s) v))]"
  "events s (vm_exit_controls_set v s) =
     [VmWrite ctrl_vmexit_controls (ucast (adjust (exit_cap s) v))]"
  "events s (processor_based_controls2_set v s) =
     [VmWrite ctrl_secondary_processor_based_vm_execution_controls (ucast v)]"
  by (simp_all add: pin_based_controls_set_def processor_based_controls_set_def
      vm_entry_controls_set_def vm_exit_controls_set_def processor_based_controls2_set_def
      events_vmwrite_same)

lemma adjust_mandatory:
  "consistent cap \<longrightarrow>
      (\<forall>n. (bit (allowed_0_settings cap) n \<longrightarrow> bit (adjust cap v) n) \<and>
           (\<not> bit (allowed_1_settings cap) n \<longrightarrow> \<not> bit (adjust cap v) n))"
  by (simp add: adjust_mandatory_1 adjust_mandatory_0)

lemma vmcs_host_selector_set:
  "vmcs (host_cs_set seg s) =
     (vmcs s)(host_cs_selector := ucast (index (selector seg) * 8))"
  "vmcs (host_ds_set seg s) =
     (vmcs s)(host_ds_selector := ucast (index (selector seg) * 8))"
  "vmcs (host_es_set seg s) =
     (vmcs s)(host_es_selector := ucast (index (selector seg) * 8))"
  "vmcs (host_fs_set seg s) =
     (vmcs s)(host_fs_selector := ucast (index (selector seg) * 8),
              host_fs_base := base_address seg)"
  "vmcs (host_gs_set seg s) =
     (vmcs s)(host_gs_selector := ucast (index (selector seg) * 8),
              host_gs_base := base_address seg)"
  "vmcs (host_ss_set seg s) =
     (vmcs s)(host_ss_selector := ucast (index (selector seg) * 8))"
  "vmcs (host_tr_set seg s) =
     (vmcs s)(host_tr_selector := ucast (index (selector seg) * 8),
              host_tr_base := base_address seg)"
  by (simp_all add: host_cs_set_def host_ds_set_def host_es_set_def host_fs_set_def host_gs_set_def host_ss_set_def host_tr_set_def
      Let_def vmcs_vmwrite selector_value_64)

lemma vmcs_io_bitmap_set:
  "vmcs (io_bitmap_set bm s) =
     (vmcs s)(ctrl_processor_based_vm_execution_controls :=
                ucast (adjust (procbased_cap s)
                  (set_bit use_io_bitmaps
                     (ucast (vmcs s ctrl_processor_based_vm_execution_controls)))),
              ctrl_io_bitmap_a_address := io_bitmap_a_pa s,
              ctrl_io_bitmap_b_address := io_bitmap_b_pa s)"
  by (simp add: io_bitmap_set_unfold vmcs_vmwrite vmcs_snd_vmread)

section \<open>Control state: the claims\<close>

text \<open>
  Claim C4. For every requested value, the setters of the pin-based, the processor-based,
  the VM-entry and the VM-exit controls write \<open>adjust\<close> of the requested value, for the
  capability of their group, and the setter of the secondary processor-based controls
  writes the requested value unchanged; the write is the only hardware access of each
  setter. Afterwards the control field holds the written value, every other field keeps
  its value, and the getter reads the written value back. For a consistent capability,
  the adjusted value has every mandatory-1 bit set and every mandatory-0 bit clear.
\<close>

theorem control_setters_adjust:
  "events s (pin_based_controls_set v s) =
     [VmWrite ctrl_pin_based_vm_execution_controls (ucast (adjust (pinbased_cap s) v))] \<and>
   events s (processor_based_controls_set v s) =
     [VmWrite ctrl_processor_based_vm_execution_controls (ucast (adjust (procbased_cap s) v))] \<and>
   events s (vm_entry_controls_set v s) =
     [VmWrite ctrl_vmentry_controls (ucast (adjust (entry_cap s) v))] \<and>
   events s (vm_exit_controls_set v s) =
     [VmWrite ctrl_vmexit_controls (ucast (adjust (exit_cap s) v))] \<and>
   events s (processor_based_controls2_set v s) =
     [VmWrite ctrl_secondary_processor_based_vm_execution_controls (ucast v)] \<and>
   vmcs (pin_based_controls_set v s) =
     (vmcs s)(ctrl_pin_based_vm_execution_controls := ucast (adjust (pinbased_cap s) v)) \<and>
   vmcs (processor_based_controls_set v s) =
     (vmcs s)(ctrl_processor_based_vm_execution_controls :=
                ucast (adjust (procbased_cap s) v)) \<and>
   vmcs (vm_entry_controls_set v s) =
     (vmcs s)(ctrl_vmentry_controls := ucast (adjust (entry_cap s) v)) \<and>
   vmcs (vm_exit_controls_set v s) =
     (vmcs s)(ctrl_vmexit_controls := ucast (adjust (exit_cap s) v)) \<and>
   vmcs (processor_based_controls2_set v s) =
     (vmcs s)(ctrl_secondary_processor_based_vm_execution_controls := ucast v) \<and>
   fst (pin_based_controls_get (pin_based_controls_set v s)) = adjust (pinbased_cap s) v \<and>
   fst (processor_based_controls_get (processor_based_controls_set v s)) =
     adjust (procbased_cap s) v \<and>
   fst (vm_entry_controls_get (vm_entry_controls_set v s)) = adjust (entry_cap s) v \<and>
   fst (vm_exit_controls_get (vm_exit_controls_set v s)) = adjust (exit_cap s) v \<and>
   fst (processor_based_controls2_get (processor_based_controls2_set v s)) = v \<and>
   (consistent cap \<longrightarrow>
      (\<forall>n. (bit (allowed_0_settings cap) n \<longrightarrow> bit (adjust cap v) n) \<and>
           (\<not> bit (allowed_1_settings cap) n \<longrightarrow> \<not> bit (adjust cap v) n)))"
  by (intro conjI events_control_setters vmcs_control_setters round_trip_adjusted
      round_trip_32(1) adjust_mandatory)

theorem control_setters_adjust_witness:
  "consistent (pinbased_cap vcpu0) \<and>
   bit (allowed_0_settings (pinbased_cap vcpu0)) 1 \<and>
   bit (adjust (pinbased_cap vcpu0) 0) 1 \<and>
   \<not> bit (allowed_1_settings (pinbased_cap vcpu0)) 7 \<and>
   \<not> bit (adjust (pinbased_cap vcpu0) 0xFF) 7 \<and>
   events vcpu0 (pin_based_controls_set 0xFF vcpu0) =
     [VmWrite ctrl_pin_based_vm_execution_controls 0x7F] \<and>
   vmcs (pin_based_controls_set 0xFF vcpu0) ctrl_pin_based_vm_execution_controls = 0x7F \<and>
   fst (pin_based_controls_get (pin_based_controls_set 0xFF vcpu0)) = 0x7F"
proof -
  have c: "pinbased_cap vcpu0 = \<lparr>allowed_0_settings = 0x16, allowed_1_settings = 0x7F\<rparr>"
    by (simp add: vcpu0_def)
  have b: "bit (allowed_0_settings (pinbased_cap vcpu0)) 1"
    "\<not> bit (allowed_1_settings (pinbased_cap vcpu0)) 7"
    by (simp_all add: c)
  have a: "adjust (pinbased_cap vcpu0) 0xFF = 0x7F"
    by (simp add: c adjust_def)
  from control_setters_adjust [of vcpu0 "0xFF" "pinbased_cap vcpu0"]
    control_setters_adjust [of vcpu0 0 "pinbased_cap vcpu0"]
    consistent_vcpu0(1) b
  show ?thesis
    by (simp add: a)
qed

text \<open>
  Claim C5, as amended. For every bitmap value, \<open>io_bitmap_set\<close> stores the value in the
  storage owned by the instance, reads the processor-based controls, sets the
  use-IO-bitmaps bit and writes the result back through the adjusting setter, and then
  writes the physical addresses of the two halves of the owned bitmap to the IO-bitmap-A
  and IO-bitmap-B address fields, in this order and with no other hardware access; the
  three fields hold the written values afterwards and every other field keeps its value.
  Afterwards the use-IO-bitmaps bit of the processor-based controls reads back true
  exactly when the capability of the processor-based controls allows the bit to be 1 (or
  mandates it).
\<close>

theorem io_bitmap_set_effect:
  "own_io_bitmap (io_bitmap_set bm s) = bm \<and>
   io_bitmap_get (io_bitmap_set bm s) = bm \<and>
   events s (io_bitmap_set bm s) =
     [VmRead ctrl_processor_based_vm_execution_controls,
      VmWrite ctrl_processor_based_vm_execution_controls
        (ucast (adjust (procbased_cap s)
           (set_bit use_io_bitmaps
              (ucast (vmcs s ctrl_processor_based_vm_execution_controls))))),
      VmWrite ctrl_io_bitmap_a_address (io_bitmap_a_pa s),
      VmWrite ctrl_io_bitmap_b_address (io_bitmap_b_pa s)] \<and>
   vmcs (io_bitmap_set bm s) =
     (vmcs s)(ctrl_processor_based_vm_execution_controls :=
                ucast (adjust (procbased_cap s)
                  (set_bit use_io_bitmaps
                     (ucast (vmcs s ctrl_processor_based_vm_execution_controls)))),
              ctrl_io_bitmap_a_address := io_bitmap_a_pa s,
              ctrl_io_bitmap_b_address := io_bitmap_b_pa s) \<and>
   (bit (fst (processor_based_controls_get (io_bitmap_set bm s))) use_io_bitmaps \<longleftrightarrow>
      bit (allowed_1_settings (procbased_cap s)) use_io_bitmaps \<or>
      bit (allowed_0_settings (procbased_cap s)) use_io_bitmaps)"
proof -
  have "io_bitmap_get (io_bitmap_set bm s) = bm"
    by (simp add: io_bitmap_get_def own_io_bitmap_set)
  then show ?thesis
    by (intro conjI own_io_bitmap_set events_io_bitmap_set vmcs_io_bitmap_set
        use_io_bitmaps_after_set)
qed

theorem io_bitmap_set_effect_witness:
  "io_bitmap_get (io_bitmap_set \<lparr>io_a = [1], io_b = [2]\<rparr> vcpu0) = \<lparr>io_a = [1], io_b = [2]\<rparr> \<and>
   bit (fst (processor_based_controls_get
               (io_bitmap_set \<lparr>io_a = [1], io_b = [2]\<rparr> vcpu0))) use_io_bitmaps \<and>
   vmcs (io_bitmap_set \<lparr>io_a = [1], io_b = [2]\<rparr> vcpu0) ctrl_io_bitmap_a_address = 0x2000 \<and>
   vmcs (io_bitmap_set \<lparr>io_a = [1], io_b = [2]\<rparr> vcpu0) ctrl_io_bitmap_b_address = 0x3000"
proof -
  have "procbased_cap vcpu0 =
          \<lparr>allowed_0_settings = 0x0401E172, allowed_1_settings = 0xFFF9FFFE\<rparr>"
    by (simp add: vcpu0_def)
  then have "bit (allowed_1_settings (procbased_cap vcpu0)) use_io_bitmaps"
    by (simp add: use_io_bitmaps_def)
  moreover have "io_bitmap_a_pa vcpu0 = 0x2000" "io_bitmap_b_pa vcpu0 = 0x3000"
    by (simp_all add: vcpu0_def)
  ultimately show ?thesis
    using io_bitmap_set_effect [of "\<lparr>io_a = [1], io_b = [2]\<rparr>" vcpu0] by simp
qed

text \<open>
  The claim as first stated, that the bit reads back true after every installation, fails
  on a processor whose capability does not allow the bit.
\<close>

theorem io_bitmap_use_bit_counterexample:
  "\<not> bit (fst (processor_based_controls_get
               (io_bitmap_set \<lparr>io_a = [], io_b = []\<rparr> vcpu_no_io_bitmaps)))
          use_io_bitmaps"
proof -
  have "procbased_cap vcpu_no_io_bitmaps =
          \<lparr>allowed_0_settings = 0x0401E172, allowed_1_settings = 0xFDF9FFFE\<rparr>"
    by (simp add: vcpu_no_io_bitmaps_def)
  then have "\<not> (bit (allowed_1_settings (procbased_cap vcpu_no_io_bitmaps)) use_io_bitmaps \<or>
                bit (allowed_0_settings (procbased_cap vcpu_no_io_bitmaps)) use_io_bitmaps)"
    by (simp add: use_io_bitmaps_def)
  then show ?thesis
    unfolding use_io_bitmaps_after_set .
qed

text \<open>
  Claim C10. For every bitmap value, \<open>msr_bitmap_set\<close> copies the value into the storage
  owned by the instance, and its only hardware access is the write of the physical address
  of that storage to the MSR-bitmap address field: nothing is read, no other field of the
  control structure changes, and the owned IO bitmap is untouched. A following
  \<open>msr_bitmap_get\<close> returns the copy.
\<close>

theorem msr_bitmap_set_effect:
  "own_msr_bitmap (msr_bitmap_set bm s) = bm \<and>
   msr_bitmap_get (msr_bitmap_set bm s) = bm \<and>
   events s (msr_bitmap_set bm s) = [VmWrite ctrl_msr_bitmap_address (msr_bitmap_pa s)] \<and>
   vmcs (msr_bitmap_set bm s) = (vmcs s)(ctrl_msr_bitmap_address := msr_bitmap_pa s) \<and>
   own_io_bitmap (msr_bitmap_set bm s) = own_io_bitmap s"
  by (simp add: msr_bitmap_set_def msr_bitmap_get_def Let_def own_vmwrite vmcs_vmwrite
      events_def trace_vmwrite)

theorem msr_bitmap_set_effect_witness:
  "msr_bitmap_get (msr_bitmap_set [1, 2] vcpu0) = [1, 2] \<and>
   events vcpu0 (msr_bitmap_set [1, 2] vcpu0) = [VmWrite ctrl_msr_bitmap_address 0x1000]"
  using msr_bitmap_set_effect [of "[1, 2]" vcpu0]
  by (simp add: vcpu0_def)

section \<open>Exit decode: the claim\<close>

text \<open>
  Claim C6. \<open>exit_interrupt_info\<close> reads the VM-exit interruption-information field and
  writes nothing. If the field reports the event valid (bit 31), it reads the exit error
  code exactly when the error-code-valid flag (bit 11) is set and then always reads the
  exit instruction length; the returned descriptor holds the raw interruption
  information (so its vector and type are those of the field), the raw error code when
  one was read, and the raw instruction length as \<open>rip_adjust\<close>. If the field does
  not report the event valid, nothing else is read and the error code and \<open>rip_adjust\<close>
  are those of the default-constructed descriptor.
\<close>

theorem exit_interrupt_info_decode:
  "let info = (ucast (vmcs s vmexit_interruption_info) :: 32 word);
       r = fst (exit_interrupt_info result s);
       s' = snd (exit_interrupt_info result s)
   in ii_info r = info \<and>
      vector r = ucast info \<and>
      type r = interrupt_type_of (drop_bit 8 info AND 7) \<and>
      vmcs s' = vmcs s \<and>
      (bit info 31 \<longrightarrow>
         events s s' =
           map VmRead (vmexit_interruption_info #
             (if bit info 11 then [vmexit_interruption_error_code] else []) @
             [vmexit_instruction_length]) \<and>
         ii_error_code r =
           (if bit info 11 then ucast (vmcs s vmexit_interruption_error_code)
            else ii_error_code result) \<and>
         ii_rip_adjust r = ucast (vmcs s vmexit_instruction_length) \<and>
         (bit info 11 \<longrightarrow>
            r = \<lparr>ii_info = info,
                 ii_error_code = ucast (vmcs s vmexit_interruption_error_code),
                 ii_rip_adjust = ucast (vmcs s vmexit_instruction_length)\<rparr>)) \<and>
      (\<not> bit info 31 \<longrightarrow>
         events s s' = [VmRead vmexit_interruption_info] \<and>
         ii_error_code r = ii_error_code result \<and>
         ii_rip_adjust r = ii_rip_adjust result)"
proof (cases "bit (ucast (vmcs s vmexit_interruption_info) :: 32 word) 31")
  case False
  then show ?thesis
    by (simp add: exit_interrupt_info_invalid Let_def vector_def type_def
        vmcs_snd_vmread events_def trace_snd_vmread)
next
  case v: True
  show ?thesis
  proof (cases "bit (ucast (vmcs s vmexit_interruption_info) :: 32 word) 11")
    case False
    with v show ?thesis
      by (simp add: exit_interrupt_info_valid_no_code Let_def vector_def type_def
          vmcs_snd_vmread events_def trace_snd_vmread)
  next
    case True
    with v show ?thesis
      by (simp add: exit_interrupt_info_valid_code Let_def vector_def type_def
          vmcs_snd_vmread events_def trace_snd_vmread)
  qed
qed

theorem exit_interrupt_info_decode_witness:
  "fst (exit_interrupt_info invalid_event vcpu_exit_pf) =
     \<lparr>ii_info = 0x80000B0E, ii_error_code = 2, ii_rip_adjust = 3\<rparr> \<and>
   events vcpu_exit_pf (snd (exit_interrupt_info invalid_event vcpu_exit_pf)) =
     [VmRead vmexit_interruption_info, VmRead vmexit_interruption_error_code,
      VmRead vmexit_instruction_length] \<and>
   ii_info (fst (exit_interrupt_info invalid_event vcpu_exit_bp)) = 0x80000603 \<and>
   ii_error_code (fst (exit_interrupt_info invalid_event vcpu_exit_bp)) = 0x10 \<and>
   ii_rip_adjust (fst (exit_interrupt_info invalid_event vcpu_exit_bp)) = 1 \<and>
   events vcpu0 (snd (exit_interrupt_info invalid_event vcpu0)) =
     [VmRead vmexit_interruption_info]"
proof -
  have v: "vmcs vcpu_exit_pf vmexit_interruption_info = 0x80000B0E"
    "vmcs vcpu_exit_pf vmexit_interruption_error_code = 2"
    "vmcs vcpu_exit_pf vmexit_instruction_length = 3"
    "vmcs vcpu_exit_bp vmexit_interruption_info = 0x80000603"
    "vmcs vcpu_exit_bp vmexit_instruction_length = 1"
    "vmcs vcpu0 vmexit_interruption_info = 0"
    by (simp_all add: vcpu_exit_pf_def vcpu_exit_bp_def vcpu0_def)
  have e: "ii_error_code invalid_event = 0x10"
    by (simp add: invalid_event_def)
  from exit_interrupt_info_decode [of vcpu_exit_pf invalid_event]
    exit_interrupt_info_decode [of vcpu_exit_bp invalid_event]
    exit_interrupt_info_decode [of vcpu0 invalid_event]
  show ?thesis
    by (simp add: Let_def v e interrupt_info.equality)
qed

section \<open>Guest and host state: the claims\<close>

text \<open>
  Claim C8. For every segment value, each host segment setter (CS, DS, ES, FS, GS, SS, TR)
  writes \<open>index * 8\<close> of the selector to the selector field (and, for FS, GS and TR,
  the base address to the base field), and nothing else. Afterwards the selector field
  holds \<open>index * 8\<close>, every field not written keeps its value, and the getter reads
  \<open>index * 8\<close> back as the selector. The written selector has the index of the
  caller's selector, a clear table indicator and privilege level zero; it is the caller's
  selector with the three low bits cleared.
\<close>

theorem host_segment_selector_canonical:
  "events s (host_cs_set seg s) =
     [VmWrite host_cs_selector (ucast (index (selector seg) * 8))] \<and>
   events s (host_ds_set seg s) =
     [VmWrite host_ds_selector (ucast (index (selector seg) * 8))] \<and>
   events s (host_es_set seg s) =
     [VmWrite host_es_selector (ucast (index (selector seg) * 8))] \<and>
   events s (host_fs_set seg s) =
     [VmWrite host_fs_selector (ucast (index (selector seg) * 8)),
      VmWrite host_fs_base (base_address seg)] \<and>
   events s (host_gs_set seg s) =
     [VmWrite host_gs_selector (ucast (index (selector seg) * 8)),
      VmWrite host_gs_base (base_address seg)] \<and>
   events s (host_ss_set seg s) =
     [VmWrite host_ss_selector (ucast (index (selector seg) * 8))] \<and>
   events s (host_tr_set seg s) =
     [VmWrite host_tr_selector (ucast (index (selector seg) * 8)),
      VmWrite host_tr_base (base_address seg)] \<and>
   vmcs (host_cs_set seg s) =
     (vmcs s)(host_cs_selector := ucast (index (selector seg) * 8)) \<and>
   vmcs (host_ds_set seg s) =
     (vmcs s)(host_ds_selector := ucast (index (selector seg) * 8)) \<and>
   vmcs (host_es_set seg s) =
     (vmcs s)(host_es_selector := ucast (index (selector seg) * 8)) \<and>
   vmcs (host_fs_set seg s) =
     (vmcs s)(host_fs_selector := ucast (index (selector seg) * 8),
              host_fs_base := base_address seg) \<and>
   vmcs (host_gs_set seg s) =
     (vmcs s)(host_gs_selector := ucast (index (selector seg) * 8),
              host_gs_base := base_address seg) \<and>
   vmcs (host_ss_set seg s) =
     (vmcs s)(host_ss_selector := ucast (index (selector seg) * 8)) \<and>
   vmcs (host_tr_set seg s) =
     (vmcs s)(host_tr_selector := ucast (index (selector seg) * 8),
              host_tr_base := base_address seg) \<and>
   selector (fst (host_cs_get seg0 (host_cs_set seg s))) = index (selector seg) * 8 \<and>
   selector (fst (host_ds_get seg0 (host_ds_set seg s))) = index (selector seg) * 8 \<and>
   selector (fst (host_es_get seg0 (host_es_set seg s))) = index (selector seg) * 8 \<and>
   selector (fst (host_fs_get seg0 (host_fs_set seg s))) = index (selector seg) * 8 \<and>
   selector (fst (host_gs_get seg0 (host_gs_set seg s))) = index (selector seg) * 8 \<and>
   selector (fst (host_ss_get seg0 (host_ss_set seg s))) = index (selector seg) * 8 \<and>
   selector (fst (host_tr_get seg0 (host_tr_set seg s))) = index (selector seg) * 8 \<and>
   index (index (selector seg) * 8) = index (selector seg) \<and>
   \<not> table (index (selector seg) * 8) \<and>
   request_privilege_level (index (selector seg) * 8) = 0 \<and>
   index (selector seg) * 8 = selector seg AND 0xFFF8"
  by (intro conjI events_host_selector_set vmcs_host_selector_set round_trip_host_selector
      canonical_selector)

theorem host_segment_selector_canonical_witness:
  "events vcpu0 (host_cs_set user_segment vcpu0) = [VmWrite host_cs_selector 0x28] \<and>
   events vcpu0 (host_tr_set user_segment vcpu0) =
     [VmWrite host_tr_selector 0x28, VmWrite host_tr_base 0x7000] \<and>
   vmcs (host_cs_set user_segment vcpu0) host_cs_selector = 0x28 \<and>
   vmcs (host_tr_set user_segment vcpu0) host_tr_selector = 0x28 \<and>
   vmcs (host_tr_set user_segment vcpu0) host_tr_base = 0x7000 \<and>
   selector (fst (host_cs_get user_segment (host_cs_set user_segment vcpu0))) = 0x28"
proof -
  have "index (selector user_segment) * 8 = 0x28"
    by (simp add: user_segment_def index_def)
  moreover have "base_address user_segment = 0x7000"
    by (simp add: user_segment_def)
  ultimately show ?thesis
    using host_segment_selector_canonical [of vcpu0 user_segment user_segment] by simp
qed

text \<open>
  Claim C7, as amended. For every accessor pair and every value, the getter applied after
  the setter returns the value, with these exceptions. The getters of the pin-based, the
  processor-based, the VM-entry and the VM-exit controls return \<open>adjust\<close> of the value.
  The host GDTR and IDTR accessors store and return the base address only. The host
  segment accessors return the selector \<open>index * 8\<close> (and the base address, for FS, GS
  and TR); the other members are those of the default-constructed value. After the
  installation of an IO bitmap, the use-IO-bitmaps
  bit of the processor-based controls reads back true exactly when the capability allows
  or mandates it.
\<close>

theorem accessor_round_trip:
  "fst (processor_based_controls2_get (processor_based_controls2_set c s)) = c \<and>
   fst (exception_bitmap_get (exception_bitmap_set c s)) = c \<and>
   fst (pagefault_error_code_mask_get (pagefault_error_code_mask_set c s)) = c \<and>
   fst (pagefault_error_code_match_get (pagefault_error_code_match_set c s)) = c \<and>
   fst (entry_instruction_length_get (entry_instruction_length_set c s)) = c \<and>
   fst (entry_interruption_info_get (entry_interruption_info_set c s)) = c \<and>
   fst (entry_interruption_error_code_get (entry_interruption_error_code_set c s)) = c \<and>
   fst (pin_based_controls_get (pin_based_controls_set c s)) = adjust (pinbased_cap s) c \<and>
   fst (processor_based_controls_get (processor_based_controls_set c s)) = adjust (procbased_cap s) c \<and>
   fst (vm_entry_controls_get (vm_entry_controls_set c s)) = adjust (entry_cap s) c \<and>
   fst (vm_exit_controls_get (vm_exit_controls_set c s)) = adjust (exit_cap s) c \<and>
   msr_bitmap_get (msr_bitmap_set mb s) = mb \<and>
   io_bitmap_get (io_bitmap_set ib s) = ib \<and>
   (bit (fst (processor_based_controls_get (io_bitmap_set ib s))) use_io_bitmaps \<longleftrightarrow>
      bit (allowed_1_settings (procbased_cap s)) use_io_bitmaps \<or>
      bit (allowed_0_settings (procbased_cap s)) use_io_bitmaps) \<and>
   fst (guest_cr0_shadow_get (guest_cr0_shadow_set v s)) = v \<and>
   fst (guest_cr0_get (guest_cr0_set v s)) = v \<and>
   fst (guest_cr3_get (guest_cr3_set v s)) = v \<and>
   fst (guest_cr4_shadow_get (guest_cr4_shadow_set v s)) = v \<and>
   fst (guest_cr4_get (guest_cr4_set v s)) = v \<and>
   fst (guest_dr7_get (guest_dr7_set v s)) = v \<and>
   fst (guest_debugctl_get (guest_debugctl_set v s)) = v \<and>
   fst (guest_rsp_get (guest_rsp_set v s)) = v \<and>
   fst (guest_rip_get (guest_rip_set v s)) = v \<and>
   fst (guest_rflags_get (guest_rflags_set v s)) = v \<and>
   fst (guest_gdtr_get (guest_gdtr_set t s)) = t \<and>
   fst (guest_idtr_get (guest_idtr_set t s)) = t \<and>
   fst (guest_seg_get r (guest_seg_set r seg s)) = seg \<and>
   fst (guest_cs_get (guest_cs_set seg s)) = seg \<and>
   fst (guest_ds_get (guest_ds_set seg s)) = seg \<and>
   fst (guest_es_get (guest_es_set seg s)) = seg \<and>
   fst (guest_fs_get (guest_fs_set seg s)) = seg \<and>
   fst (guest_gs_get (guest_gs_set seg s)) = seg \<and>
   fst (guest_ss_get (guest_ss_set seg s)) = seg \<and>
   fst (guest_tr_get (guest_tr_set seg s)) = seg \<and>
   fst (guest_ldtr_get (guest_ldtr_set seg s)) = seg \<and>
   fst (host_cr0_get (host_cr0_set v s)) = v \<and>
   fst (host_cr3_get (host_cr3_set v s)) = v \<and>
   fst (host_cr4_get (host_cr4_set v s)) = v \<and>
   fst (host_rsp_get (host_rsp_set v s)) = v \<and>
   fst (host_rip_get (host_rip_set v s)) = v \<and>
   table_base_address (fst (host_gdtr_get t0 (host_gdtr_set t s))) = table_base_address t \<and>
   table_limit (fst (host_gdtr_get t0 (host_gdtr_set t s))) = table_limit t0 \<and>
   table_base_address (fst (host_idtr_get t0 (host_idtr_set t s))) = table_base_address t \<and>
   table_limit (fst (host_idtr_get t0 (host_idtr_set t s))) = table_limit t0 \<and>
   selector (fst (host_cs_get seg0 (host_cs_set seg s))) = index (selector seg) * 8 \<and>
   selector (fst (host_ds_get seg0 (host_ds_set seg s))) = index (selector seg) * 8 \<and>
   selector (fst (host_es_get seg0 (host_es_set seg s))) = index (selector seg) * 8 \<and>
   selector (fst (host_fs_get seg0 (host_fs_set seg s))) = index (selector seg) * 8 \<and>
   base_address (fst (host_fs_get seg0 (host_fs_set seg s))) = base_address seg \<and>
   selector (fst (host_gs_get seg0 (host_gs_set seg s))) = index (selector seg) * 8 \<and>
   base_address (fst (host_gs_get seg0 (host_gs_set seg s))) = base_address seg \<and>
   selector (fst (host_ss_get seg0 (host_ss_set seg s))) = index (selector seg) * 8 \<and>
   selector (fst (host_tr_get seg0 (host_tr_set seg s))) = index (selector seg) * 8 \<and>
   base_address (fst (host_tr_get seg0 (host_tr_set seg s))) = base_address seg \<and>
   limit (fst (host_cs_get seg0 (host_cs_set seg s))) = limit seg0 \<and>
   access (fst (host_cs_get seg0 (host_cs_set seg s))) = access seg0 \<and>
   base_address (fst (host_cs_get seg0 (host_cs_set seg s))) = base_address seg0 \<and>
   limit (fst (host_ds_get seg0 (host_ds_set seg s))) = limit seg0 \<and>
   access (fst (host_ds_get seg0 (host_ds_set seg s))) = access seg0 \<and>
   base_address (fst (host_ds_get seg0 (host_ds_set seg s))) = base_address seg0 \<and>
   limit (fst (host_es_get seg0 (host_es_set seg s))) = limit seg0 \<and>
   access (fst (host_es_get seg0 (host_es_set seg s))) = access seg0 \<and>
   base_address (fst (host_es_get seg0 (host_es_set seg s))) = base_address seg0 \<and>
   limit (fst (host_fs_get seg0 (host_fs_set seg s))) = limit seg0 \<and>
   access (fst (host_fs_get seg0 (host_fs_set seg s))) = access seg0 \<and>
   limit (fst (host_gs_get seg0 (host_gs_set seg s))) = limit seg0 \<and>
   access (fst (host_gs_get seg0 (host_gs_set seg s))) = access seg0 \<and>
   limit (fst (host_ss_get seg0 (host_ss_set seg s))) = limit seg0 \<and>
   access (fst (host_ss_get seg0 (host_ss_set seg s))) = access seg0 \<and>
   base_address (fst (host_ss_get seg0 (host_ss_set seg s))) = base_address seg0 \<and>
   limit (fst (host_tr_get seg0 (host_tr_set seg s))) = limit seg0 \<and>
   access (fst (host_tr_get seg0 (host_tr_set seg s))) = access seg0"
  by (intro conjI round_trip_32 round_trip_adjusted round_trip_bitmaps
      use_io_bitmaps_after_set round_trip_64 round_trip_guest_table round_trip_guest_seg
      round_trip_guest_segments round_trip_host_table round_trip_host_selector
      round_trip_host_base round_trip_host_rest)

theorem accessor_round_trip_witness:
  "fst (guest_rip_get (guest_rip_set 0x401000 vcpu0)) = 0x401000 \<and>
   fst (guest_cs_get (guest_cs_set user_segment vcpu0)) = user_segment \<and>
   fst (pin_based_controls_get (pin_based_controls_set 0 vcpu0)) = 0x16 \<and>
   selector (fst (host_cs_get user_segment (host_cs_set user_segment vcpu0))) = 0x28 \<and>
   bit (fst (processor_based_controls_get
               (io_bitmap_set \<lparr>io_a = [], io_b = []\<rparr> vcpu0))) use_io_bitmaps"
proof -
  have c: "pinbased_cap vcpu0 = \<lparr>allowed_0_settings = 0x16, allowed_1_settings = 0x7F\<rparr>"
    "procbased_cap vcpu0 =
       \<lparr>allowed_0_settings = 0x0401E172, allowed_1_settings = 0xFFF9FFFE\<rparr>"
    by (simp_all add: vcpu0_def)
  have a: "adjust (pinbased_cap vcpu0) 0 = 0x16"
    by (simp add: c adjust_def)
  have i: "index (selector user_segment) * 8 = 0x28"
    by (simp add: user_segment_def index_def)
  have b: "bit (allowed_1_settings (procbased_cap vcpu0)) use_io_bitmaps"
    by (simp add: c use_io_bitmaps_def)
  from accessor_round_trip [of 0 vcpu0 "[]" "\<lparr>io_a = [], io_b = []\<rparr>" "0x401000" _ _
      user_segment _ user_segment]
  show ?thesis
    by (simp add: a i b)
qed

text \<open>
  The claim as first stated fails for the pin-based controls: on a processor that mandates
  some bits, the value 0 does not read back as 0.
\<close>

theorem accessor_round_trip_counterexample:
  "fst (pin_based_controls_get (pin_based_controls_set 0 vcpu0)) \<noteq> 0"
proof -
  have "pinbased_cap vcpu0 = \<lparr>allowed_0_settings = 0x16, allowed_1_settings = 0x7F\<rparr>"
    by (simp add: vcpu0_def)
  then have "adjust (pinbased_cap vcpu0) 0 = 0x16"
    by (simp add: adjust_def)
  then show ?thesis
    by (simp add: round_trip_adjusted)
qed

end
